theory Spec2Isabelle
  imports Complex_Main "HOL-Library.Sublist"
begin

section \<open>Values shared by the whole development\<close>

text \<open>
  The repository is one Go file, \<^verbatim>\<open>types.go\<close>: the structs of the Telegram Bot API with
  their \<^verbatim>\<open>json\<close> tags, a handful of methods on them, and the channel type
  \<^verbatim>\<open>UpdatesChannel\<close> with its method \<^verbatim>\<open>Clear\<close>.

  A Go pointer \<^verbatim>\<open>*T\<close> is an \<open>option\<close>: \<open>None\<close> is \<^verbatim>\<open>nil\<close>. Go's \<^verbatim>\<open>string\<close> is a
  sequence of bytes, which is what HOL's \<open>string\<close> is. Go's \<^verbatim>\<open>int\<close> and \<^verbatim>\<open>int64\<close> are
  \<open>int\<close>; the only place that creates them here is the JSON decoder, which checks the
  64-bit range. A run-time panic is a value of type \<open>panic\<close> on the left of a sum.
\<close>

datatype panic = NilDereference | IndexOutOfRange | SliceBoundsOutOfRange

text \<open>\<^verbatim>\<open>xs[i]\<close> and \<^verbatim>\<open>s[i:]\<close>, \<^verbatim>\<open>s[:i]\<close> with Go's bounds checks.\<close>

definition index_at :: "'a list \<Rightarrow> int \<Rightarrow> panic + 'a" where
  "index_at xs i = (if 0 \<le> i \<and> i < int (length xs) then Inr (xs ! nat i) else Inl IndexOutOfRange)"

definition slice_from :: "string \<Rightarrow> int \<Rightarrow> panic + string" where
  "slice_from s i = (if 0 \<le> i \<and> i \<le> int (length s) then Inr (drop (nat i) s) else Inl SliceBoundsOutOfRange)"

definition slice_to :: "string \<Rightarrow> int \<Rightarrow> panic + string" where
  "slice_to s i = (if 0 \<le> i \<and> i \<le> int (length s) then Inr (take (nat i) s) else Inl SliceBoundsOutOfRange)"

subsection \<open>The two functions of package \<^verbatim>\<open>strings\<close> that the source calls\<close>

text \<open>
  \<^verbatim>\<open>strings.Index(s, substr)\<close>: the index of the first occurrence of \<^verbatim>\<open>substr\<close> in
  \<^verbatim>\<open>s\<close>, or \<open>-1\<close>.
\<close>

fun Index :: "string \<Rightarrow> string \<Rightarrow> int" where
  "Index [] sub = (if sub = [] then 0 else - 1)"
| "Index (c # s) sub =
     (if prefix sub (c # s) then 0
      else (let i = Index s sub in if i = - 1 then - 1 else i + 1))"

text \<open>
  \<^verbatim>\<open>strings.SplitN(s, sep, n)\<close> is \<^verbatim>\<open>genSplit(s, sep, 0, n)\<close>:
  \<^verbatim>\<open>
  if n == 0 { return nil }
  if sep == "" { return explode(s, n) }
  if n < 0 { n = Count(s, sep) + 1 }
  if n > len(s)+1 { n = len(s) + 1 }
  a := make([]string, n); n--; i := 0
  for i < n {
      m := Index(s, sep)
      if m < 0 { break }
      a[i] = s[:m]; s = s[m+len(sep):]; i++
  }
  a[i] = s
  return a[:i+1]
  \<close>
  \<open>split_loop s sep k\<close> is the loop with \<open>k = n - i\<close> rounds left, followed by the last
  piece. \<open>Count\<close> counts the non-overlapping occurrences of a non-empty separator. The
  source passes the separator \<^verbatim>\<open>" "\<close> only; for the empty separator \<open>explode\<close> cuts
  after every byte, which is what the library does on ASCII text.
\<close>

fun split_loop :: "string \<Rightarrow> string \<Rightarrow> nat \<Rightarrow> string list" where
  "split_loop s sep 0 = [s]"
| "split_loop s sep (Suc k) =
     (let m = Index s sep in
      if m < 0 then [s]
      else take (nat m) s # split_loop (drop (nat m + length sep) s) sep k)"

fun Count_fuel :: "nat \<Rightarrow> string \<Rightarrow> string \<Rightarrow> nat" where
  "Count_fuel 0 s sep = 0"
| "Count_fuel (Suc f) s sep =
     (let m = Index s sep in
      if m < 0 then 0 else Suc (Count_fuel f (drop (nat m + length sep) s) sep))"

definition Count :: "string \<Rightarrow> string \<Rightarrow> nat" where
  "Count s sep = Count_fuel (Suc (length s)) s sep"

fun explode :: "string \<Rightarrow> nat \<Rightarrow> string list" where
  "explode s 0 = []"
| "explode s (Suc 0) = [s]"
| "explode [] (Suc (Suc k)) = [[]]"
| "explode (c # s) (Suc (Suc k)) = [c] # explode s (Suc k)"

definition SplitN :: "string \<Rightarrow> string \<Rightarrow> int \<Rightarrow> string list" where
  "SplitN s sep n =
     (if n = 0 then []
      else if sep = [] then
        explode s (if n < 0 \<or> n > int (length s) then length s else nat n)
      else
        (let n1 = (if n < 0 then int (Count s sep) + 1 else n);
             n2 = (if n1 > int (length s) + 1 then int (length s) + 1 else n1)
         in split_loop s sep (nat (n2 - 1))))"

section \<open>The data model\<close>

text \<open>
  One record per struct of \<^verbatim>\<open>types.go\<close> that an \<^verbatim>\<open>Update\<close> or an \<^verbatim>\<open>APIResponse\<close> can
  contain, with the fields in the order of the source. A JSON number is an integer
  literal or, when the literal has a fraction or an exponent, the rational number it
  denotes. A \<^verbatim>\<open>float64\<close> is kept as the number it was read from: no claim computes
  with one.
\<close>

datatype number = IntLit int | FracLit rat

datatype json =
    JNull
  | JBool bool
  | JNumber number
  | JString string
  | JArray "json list"
  | JObject "(string \<times> json) list"

datatype float64 = Float64 number

record User =
  ID :: int
  FirstName :: string
  LastName :: string
  UserName :: string

record Chat =
  ID :: int
  Type :: string
  Title :: string
  UserName :: string
  FirstName :: string
  LastName :: string
  AllMembersAreAdmins :: bool

record MessageEntity =
  Type :: string
  Offset :: int
  Length :: int
  URL :: string
  User :: "User option"

record PhotoSize =
  FileID :: string
  Width :: int
  Height :: int
  FileSize :: int

record Audio =
  FileID :: string
  Duration :: int
  Performer :: string
  Title :: string
  MimeType :: string
  FileSize :: int

record Document =
  FileID :: string
  Thumbnail :: "PhotoSize option"
  FileName :: string
  MimeType :: string
  FileSize :: int

record Sticker =
  FileID :: string
  Width :: int
  Height :: int
  Thumbnail :: "PhotoSize option"
  Emoji :: string
  FileSize :: int

record Video =
  FileID :: string
  Width :: int
  Height :: int
  Duration :: int
  Thumbnail :: "PhotoSize option"
  MimeType :: string
  FileSize :: int

record Voice =
  FileID :: string
  Duration :: int
  MimeType :: string
  FileSize :: int

record Contact =
  PhoneNumber :: string
  FirstName :: string
  LastName :: string
  UserID :: int

record Location =
  Longitude :: float64
  Latitude :: float64

record Venue =
  Location :: Location
  Title :: string
  Address :: string
  FoursquareID :: string

record Animation =
  FileID :: string
  Thumb :: PhotoSize
  FileName :: string
  MimeType :: string
  FileSize :: int

record Game =
  Title :: string
  Description :: string
  Photo :: "PhotoSize list"
  Text :: string
  TextEntities :: "MessageEntity list"
  Animation :: Animation

text \<open>
  \<^verbatim>\<open>Message\<close> refers to itself through \<^verbatim>\<open>ReplyToMessage\<close> and \<^verbatim>\<open>PinnedMessage\<close>, so it
  is a datatype: the two links, and a record \<open>Message_fields\<close> of the 33 other fields.
\<close>

record Message_fields =
  MessageID :: int
  From :: "User option"
  Date :: int
  Chat :: "Chat option"
  ForwardFrom :: "User option"
  ForwardFromChat :: "Chat option"
  ForwardFromMessageID :: int
  ForwardDate :: int
  EditDate :: int
  Text :: string
  Entities :: "MessageEntity list option"
  Audio :: "Audio option"
  Document :: "Document option"
  Game :: "Game option"
  Photo :: "PhotoSize list option"
  Sticker :: "Sticker option"
  Video :: "Video option"
  Voice :: "Voice option"
  Caption :: string
  Contact :: "Contact option"
  Location :: "Location option"
  Venue :: "Venue option"
  NewChatMember :: "User option"
  LeftChatMember :: "User option"
  NewChatTitle :: string
  NewChatPhoto :: "PhotoSize list option"
  DeleteChatPhoto :: bool
  GroupChatCreated :: bool
  SuperGroupChatCreated :: bool
  ChannelChatCreated :: bool
  MigrateToChatID :: int
  MigrateFromChatID :: int

datatype Message =
  MkMessage (body: Message_fields) (ReplyToMessage: "Message option")
    (PinnedMessage: "Message option")

record InlineQuery =
  ID :: string
  From :: "User option"
  Location :: "Location option"
  Query :: string
  Offset :: string

record ChosenInlineResult =
  ResultID :: string
  From :: "User option"
  Location :: "Location option"
  InlineMessageID :: string
  Query :: string

record CallbackQuery =
  ID :: string
  From :: "User option"
  Message :: "Message option"
  InlineMessageID :: string
  ChatInstance :: string
  Data :: string
  GameShortName :: string

record Update =
  UpdateID :: int
  Message :: "Message option"
  EditedMessage :: "Message option"
  ChannelPost :: "Message option"
  EditedChannelPost :: "Message option"
  InlineQuery :: "InlineQuery option"
  ChosenInlineResult :: "ChosenInlineResult option"
  CallbackQuery :: "CallbackQuery option"

record ResponseParameters =
  MigrateToChatID :: int
  RetryAfter :: int

text \<open>
  \<^verbatim>\<open>json.RawMessage\<close> is the undecoded bytes of one JSON value; the model keeps the
  value itself in their place. \<open>None\<close> is the nil slice of a field that was never set.
\<close>

type_synonym RawMessage = "json option"

record APIResponse =
  Ok :: bool
  Result :: RawMessage
  ErrorCode :: int
  Description :: string
  Parameters :: "ResponseParameters option"

subsection \<open>Zero values\<close>

text \<open>What Go puts in a variable declared without a value: \<open>0\<close>, \<^verbatim>\<open>""\<close>, \<^verbatim>\<open>false\<close>, \<^verbatim>\<open>nil\<close>.\<close>

definition zero_float64 :: float64 where
  "zero_float64 = Float64 (IntLit 0)"

definition zero_User :: User where
  "zero_User = \<lparr> User.ID = 0, FirstName = [], LastName = [], UserName = [] \<rparr>"

definition zero_Chat :: Chat where
  "zero_Chat = \<lparr> Chat.ID = 0, Type = [], Title = [], UserName = [], FirstName = [],
     LastName = [], AllMembersAreAdmins = False \<rparr>"

definition zero_MessageEntity :: MessageEntity where
  "zero_MessageEntity = \<lparr> MessageEntity.Type = [], Offset = 0, Length = 0, URL = [], User = None \<rparr>"

definition zero_PhotoSize :: PhotoSize where
  "zero_PhotoSize = \<lparr> PhotoSize.FileID = [], Width = 0, Height = 0, FileSize = 0 \<rparr>"

definition zero_Audio :: Audio where
  "zero_Audio = \<lparr> Audio.FileID = [], Duration = 0, Performer = [], Title = [], MimeType = [],
     FileSize = 0 \<rparr>"

definition zero_Document :: Document where
  "zero_Document = \<lparr> Document.FileID = [], Thumbnail = None, FileName = [], MimeType = [],
     FileSize = 0 \<rparr>"

definition zero_Sticker :: Sticker where
  "zero_Sticker = \<lparr> Sticker.FileID = [], Width = 0, Height = 0, Thumbnail = None, Emoji = [],
     FileSize = 0 \<rparr>"

definition zero_Video :: Video where
  "zero_Video = \<lparr> Video.FileID = [], Width = 0, Height = 0, Duration = 0, Thumbnail = None,
     MimeType = [], FileSize = 0 \<rparr>"

definition zero_Voice :: Voice where
  "zero_Voice = \<lparr> Voice.FileID = [], Duration = 0, MimeType = [], FileSize = 0 \<rparr>"

definition zero_Contact :: Contact where
  "zero_Contact = \<lparr> PhoneNumber = [], FirstName = [], LastName = [], UserID = 0 \<rparr>"

definition zero_Location :: Location where
  "zero_Location = \<lparr> Longitude = zero_float64, Latitude = zero_float64 \<rparr>"

definition zero_Venue :: Venue where
  "zero_Venue = \<lparr> Venue.Location = zero_Location, Title = [], Address = [], FoursquareID = [] \<rparr>"

definition zero_Animation :: Animation where
  "zero_Animation = \<lparr> Animation.FileID = [], Thumb = zero_PhotoSize, FileName = [],
     MimeType = [], FileSize = 0 \<rparr>"

definition zero_Game :: Game where
  "zero_Game = \<lparr> Game.Title = [], Description = [], Photo = [], Text = [], TextEntities = [],
     Animation = zero_Animation \<rparr>"

definition zero_Message_fields :: Message_fields where
  "zero_Message_fields = \<lparr> MessageID = 0, From = None, Date = 0, Chat = None,
     ForwardFrom = None, ForwardFromChat = None, ForwardFromMessageID = 0, ForwardDate = 0,
     EditDate = 0, Text = [], Entities = None, Audio = None, Document = None, Game = None,
     Photo = None, Sticker = None, Video = None, Voice = None, Caption = [], Contact = None,
     Location = None, Venue = None, NewChatMember = None, LeftChatMember = None,
     NewChatTitle = [], NewChatPhoto = None, DeleteChatPhoto = False,
     GroupChatCreated = False, SuperGroupChatCreated = False, ChannelChatCreated = False,
     MigrateToChatID = 0, MigrateFromChatID = 0 \<rparr>"

definition zero_Message :: Message where
  "zero_Message = MkMessage zero_Message_fields None None"

definition zero_InlineQuery :: InlineQuery where
  "zero_InlineQuery = \<lparr> InlineQuery.ID = [], From = None, Location = None, Query = [],
     Offset = [] \<rparr>"

definition zero_ChosenInlineResult :: ChosenInlineResult where
  "zero_ChosenInlineResult = \<lparr> ResultID = [], From = None, Location = None,
     InlineMessageID = [], Query = [] \<rparr>"

definition zero_CallbackQuery :: CallbackQuery where
  "zero_CallbackQuery = \<lparr> CallbackQuery.ID = [], From = None, Message = None,
     InlineMessageID = [], ChatInstance = [], Data = [], GameShortName = [] \<rparr>"

definition zero_Update :: Update where
  "zero_Update = \<lparr> UpdateID = 0, Message = None, EditedMessage = None, ChannelPost = None,
     EditedChannelPost = None, InlineQuery = None, ChosenInlineResult = None,
     CallbackQuery = None \<rparr>"

definition zero_ResponseParameters :: ResponseParameters where
  "zero_ResponseParameters = \<lparr> MigrateToChatID = 0, RetryAfter = 0 \<rparr>"

definition zero_APIResponse :: APIResponse where
  "zero_APIResponse = \<lparr> Ok = False, Result = None, ErrorCode = 0, Description = [],
     Parameters = None \<rparr>"

section \<open>Methods of \<^verbatim>\<open>Chat\<close>\<close>

definition IsPrivate :: "Chat \<Rightarrow> bool" where
  "IsPrivate c = (Chat.Type c = ''private'')"

definition IsGroup :: "Chat \<Rightarrow> bool" where
  "IsGroup c = (Chat.Type c = ''group'')"

definition IsSuperGroup :: "Chat \<Rightarrow> bool" where
  "IsSuperGroup c = (Chat.Type c = ''supergroup'')"

definition IsChannel :: "Chat \<Rightarrow> bool" where
  "IsChannel c = (Chat.Type c = ''channel'')"

section \<open>Methods of \<^verbatim>\<open>*Message\<close>\<close>

text \<open>
  The receiver is a pointer: \<^verbatim>\<open>func (m *Message) IsCommand() bool\<close>. Go calls such a
  method on a nil receiver too, and the first read of \<^verbatim>\<open>m.Text\<close> panics there. That is
  what \<^verbatim>\<open>update.Message.IsCommand()\<close> does for an update without a message.

  \<^verbatim>\<open>return m.Text != "" && m.Text[0] == '/'\<close>
\<close>

definition IsCommand :: "Message option \<Rightarrow> panic + bool" where
  "IsCommand m =
     (case m of
        None \<Rightarrow> Inl NilDereference
      | Some msg \<Rightarrow>
          (case Message_fields.Text (body msg) of
             [] \<Rightarrow> Inr False
           | c # _ \<Rightarrow> Inr (c = CHR ''/'')))"

text \<open>
  \<^verbatim>\<open>
  if !m.IsCommand() { return "" }
  command := strings.SplitN(m.Text, " ", 2)[0][1:]
  if i := strings.Index(command, "@"); i != -1 { command = command[:i] }
  return command
  \<close>
\<close>

definition Command :: "Message option \<Rightarrow> panic + string" where
  "Command m =
     (case IsCommand m of
        Inl p \<Rightarrow> Inl p
      | Inr False \<Rightarrow> Inr []
      | Inr True \<Rightarrow>
          (case m of
             None \<Rightarrow> Inl NilDereference
           | Some msg \<Rightarrow>
               (case index_at (SplitN (Message_fields.Text (body msg)) '' '' 2) 0 of
                  Inl p \<Rightarrow> Inl p
                | Inr tok \<Rightarrow>
                    (case slice_from tok 1 of
                       Inl p \<Rightarrow> Inl p
                     | Inr command \<Rightarrow>
                         (let i = Index command ''@'' in
                          if i \<noteq> - 1 then slice_to command i else Inr command)))))"

text \<open>
  \<^verbatim>\<open>
  if !m.IsCommand() { return "" }
  split := strings.SplitN(m.Text, " ", 2)
  if len(split) != 2 { return "" }
  return strings.SplitN(m.Text, " ", 2)[1]
  \<close>
\<close>

definition CommandArguments :: "Message option \<Rightarrow> panic + string" where
  "CommandArguments m =
     (case IsCommand m of
        Inl p \<Rightarrow> Inl p
      | Inr False \<Rightarrow> Inr []
      | Inr True \<Rightarrow>
          (case m of
             None \<Rightarrow> Inl NilDereference
           | Some msg \<Rightarrow>
               (let split = SplitN (Message_fields.Text (body msg)) '' '' 2 in
                if length split \<noteq> 2 then Inr []
                else index_at (SplitN (Message_fields.Text (body msg)) '' '' 2) 1)))"

section \<open>The update channel\<close>

text \<open>
  \<^verbatim>\<open>type UpdatesChannel <-chan Update\<close>. What a goroutine can observe of a Go channel
  is its buffered items (oldest first), its capacity and whether it has been closed.
  \<^verbatim>\<open>len(ch)\<close> is the number of buffered items. \<^verbatim>\<open><-ch\<close> takes the oldest item; on an
  empty channel it returns the zero value at once when the channel is closed and
  suspends the caller otherwise.
\<close>

record UpdatesChannel =
  buf :: "Update list"
  cap :: nat
  closed :: bool

definition len :: "UpdatesChannel \<Rightarrow> nat" where
  "len ch = length (buf ch)"







subsection \<open>The channel among other goroutines\<close>



















section \<open>Decoding with \<^verbatim>\<open>encoding/json\<close>\<close>

text \<open>
  \<^verbatim>\<open>types.go\<close> declares no decoder: an \<^verbatim>\<open>Update\<close>, a \<^verbatim>\<open>Message\<close> or an
  \<^verbatim>\<open>APIResponse\<close> is filled by \<^verbatim>\<open>json.Unmarshal\<close> from the \<^verbatim>\<open>json:"..."\<close> tags of the
  struct fields, and no type of the file has an \<^verbatim>\<open>UnmarshalJSON\<close> method. What follows
  is what \<^verbatim>\<open>json.Unmarshal\<close> does with these structs, on a JSON text that has been
  parsed already (a text that does not parse is rejected before anything is stored).

  A member of an object goes to the field whose tag is the member's key, or else to
  the first field, in the order of the declaration, whose tag equals the key after case
  folding; a key that matches no field is skipped. The folding maps the ASCII letters to
  upper case and, as the package does, the two non-ASCII characters \<^verbatim>\<open>U+017F\<close> and
  \<^verbatim>\<open>U+212A\<close> (bytes \<^verbatim>\<open>C5 BF\<close> and \<^verbatim>\<open>E2 84 AA\<close> of the UTF-8 string) to \<^verbatim>\<open>S\<close> and \<^verbatim>\<open>K\<close>.
  The members are stored in the order of the text, so a later member with the same key
  overwrites an earlier one.
\<close>

datatype decode_error = UnmarshalTypeError

definition ascii_upper :: "char \<Rightarrow> char" where
  "ascii_upper c =
     (if 97 \<le> (of_char c :: nat) \<and> (of_char c :: nat) \<le> 122
      then (case c of Char b0 b1 b2 b3 b4 b5 b6 b7 \<Rightarrow> Char b0 b1 b2 b3 b4 False b6 b7)
      else c)"

fun foldName :: "string \<Rightarrow> string" where
  "foldName [] = []"
| "foldName (c # cs) =
     (if c = CHR 0xC5 \<and> take 1 cs = [CHR 0xBF] then CHR ''S'' # foldName (drop 1 cs)
      else if c = CHR 0xE2 \<and> take 2 cs = [CHR 0x84, CHR 0xAA] then CHR ''K'' # foldName (drop 2 cs)
      else ascii_upper c # foldName cs)"

definition field_of :: "string list \<Rightarrow> string \<Rightarrow> string option" where
  "field_of tags key =
     (if key \<in> set tags then Some key
      else find (\<lambda>t. foldName t = foldName key) tags)"

text \<open>
  What is stored depends on the type of the field. \<^verbatim>\<open>null\<close> leaves an \<^verbatim>\<open>int\<close>, a
  \<^verbatim>\<open>string\<close>, a \<^verbatim>\<open>bool\<close>, a \<^verbatim>\<open>float64\<close> and a struct as they are and sets a pointer and
  a slice to nil. A value of the wrong JSON kind is an \<^verbatim>\<open>UnmarshalTypeError\<close>, and so is
  a number with a fraction or an exponent, or outside the 64 bits of an \<^verbatim>\<open>int\<close>, for an
  integer field, and a number that overflows a \<^verbatim>\<open>float64\<close>. (\<^verbatim>\<open>int\<close> has 64 bits on the
  platforms the library is built for.) A \<^verbatim>\<open>json.RawMessage\<close> takes the text of any value,
  \<^verbatim>\<open>null\<close> included. A pointer field that is nil gets a new zero value to decode into,
  and one that has been set by an earlier member with the same key is decoded into
  again. A slice gets one element per element of the array, each decoded into a zero
  value.
\<close>

definition store :: "('v \<Rightarrow> 'a) \<Rightarrow> decode_error + 'v \<Rightarrow> decode_error + 'a" where
  "store upd r = (case r of Inl e \<Rightarrow> Inl e | Inr y \<Rightarrow> Inr (upd y))"

definition in_int64 :: "int \<Rightarrow> bool" where
  "in_int64 n \<longleftrightarrow> - (2 ^ 63) \<le> n \<and> n < 2 ^ 63"

fun dec_int :: "json \<Rightarrow> int \<Rightarrow> decode_error + int" where
  "dec_int JNull cur = Inr cur"
| "dec_int (JNumber (IntLit n)) cur = (if in_int64 n then Inr n else Inl UnmarshalTypeError)"
| "dec_int (JNumber (FracLit q)) cur = Inl UnmarshalTypeError"
| "dec_int (JBool b) cur = Inl UnmarshalTypeError"
| "dec_int (JString s) cur = Inl UnmarshalTypeError"
| "dec_int (JArray xs) cur = Inl UnmarshalTypeError"
| "dec_int (JObject ms) cur = Inl UnmarshalTypeError"

fun dec_string :: "json \<Rightarrow> string \<Rightarrow> decode_error + string" where
  "dec_string JNull cur = Inr cur"
| "dec_string (JString s) cur = Inr s"
| "dec_string (JNumber n) cur = Inl UnmarshalTypeError"
| "dec_string (JBool b) cur = Inl UnmarshalTypeError"
| "dec_string (JArray xs) cur = Inl UnmarshalTypeError"
| "dec_string (JObject ms) cur = Inl UnmarshalTypeError"

fun dec_bool :: "json \<Rightarrow> bool \<Rightarrow> decode_error + bool" where
  "dec_bool JNull cur = Inr cur"
| "dec_bool (JBool b) cur = Inr b"
| "dec_bool (JNumber n) cur = Inl UnmarshalTypeError"
| "dec_bool (JString s) cur = Inl UnmarshalTypeError"
| "dec_bool (JArray xs) cur = Inl UnmarshalTypeError"
| "dec_bool (JObject ms) cur = Inl UnmarshalTypeError"

definition number_value :: "number \<Rightarrow> rat" where
  "number_value n = (case n of IntLit i \<Rightarrow> of_int i | FracLit q \<Rightarrow> q)"

definition float64_overflows :: "number \<Rightarrow> bool" where
  "float64_overflows n \<longleftrightarrow> 2 ^ 1024 - 2 ^ 970 \<le> \<bar>number_value n\<bar>"

fun dec_float64 :: "json \<Rightarrow> float64 \<Rightarrow> decode_error + float64" where
  "dec_float64 JNull cur = Inr cur"
| "dec_float64 (JNumber n) cur =
     (if float64_overflows n then Inl UnmarshalTypeError else Inr (Float64 n))"
| "dec_float64 (JBool b) cur = Inl UnmarshalTypeError"
| "dec_float64 (JString s) cur = Inl UnmarshalTypeError"
| "dec_float64 (JArray xs) cur = Inl UnmarshalTypeError"
| "dec_float64 (JObject ms) cur = Inl UnmarshalTypeError"

definition dec_RawMessage :: "json \<Rightarrow> RawMessage \<Rightarrow> decode_error + RawMessage" where
  "dec_RawMessage v cur = Inr (Some v)"

definition dec_ptr ::
  "(json \<Rightarrow> 'a \<Rightarrow> decode_error + 'a) \<Rightarrow> 'a \<Rightarrow> json \<Rightarrow> 'a option \<Rightarrow> decode_error + 'a option" where
  "dec_ptr dec zero v cur =
     (if v = JNull then Inr None
      else store Some (dec v (case cur of None \<Rightarrow> zero | Some y \<Rightarrow> y)))"

fun decode_all :: "(json \<Rightarrow> 'a \<Rightarrow> decode_error + 'a) \<Rightarrow> 'a \<Rightarrow> json list \<Rightarrow> decode_error + 'a list" where
  "decode_all dec zero [] = Inr []"
| "decode_all dec zero (v # vs) =
     (case dec v zero of
        Inl e \<Rightarrow> Inl e
      | Inr y \<Rightarrow> store ((#) y) (decode_all dec zero vs))"

definition dec_slice ::
  "(json \<Rightarrow> 'a \<Rightarrow> decode_error + 'a) \<Rightarrow> 'a \<Rightarrow> json \<Rightarrow> 'a list \<Rightarrow> decode_error + 'a list" where
  "dec_slice dec zero v cur =
     (case v of
        JNull \<Rightarrow> Inr []
      | JArray vs \<Rightarrow> decode_all dec zero vs
      | _ \<Rightarrow> Inl UnmarshalTypeError)"

text \<open>A struct: the members in turn, each into the field that its key selects.\<close>

fun members ::
  "string list \<Rightarrow> (string \<Rightarrow> json \<Rightarrow> 'a \<Rightarrow> decode_error + 'a) \<Rightarrow> (string \<times> json) list \<Rightarrow> 'a
     \<Rightarrow> decode_error + 'a" where
  "members tags setf [] cur = Inr cur"
| "members tags setf ((k, v) # ms) cur =
     (case field_of tags k of
        None \<Rightarrow> members tags setf ms cur
      | Some t \<Rightarrow>
          (case setf t v cur of
             Inl e \<Rightarrow> Inl e
           | Inr cur' \<Rightarrow> members tags setf ms cur'))"

definition dec_struct ::
  "string list \<Rightarrow> (string \<Rightarrow> json \<Rightarrow> 'a \<Rightarrow> decode_error + 'a) \<Rightarrow> json \<Rightarrow> 'a \<Rightarrow> decode_error + 'a" where
  "dec_struct tags setf v cur =
     (case v of
        JNull \<Rightarrow> Inr cur
      | JObject ms \<Rightarrow> members tags setf ms cur
      | _ \<Rightarrow> Inl UnmarshalTypeError)"

text \<open>
  For each struct: its tags in the order of the declaration, the store into the field
  of a tag, and its decoder.
\<close>

definition User_tags :: "string list" where
  "User_tags = [''id'', ''first_name'', ''last_name'', ''username'']"

definition set_User_field :: "string \<Rightarrow> json \<Rightarrow> User \<Rightarrow> decode_error + User" where
  "set_User_field t v x =
     (if t = ''id'' then store (\<lambda>y. x\<lparr>User.ID := y\<rparr>) (dec_int v (User.ID x))
      else if t = ''first_name'' then store (\<lambda>y. x\<lparr>User.FirstName := y\<rparr>) (dec_string v (User.FirstName x))
      else if t = ''last_name'' then store (\<lambda>y. x\<lparr>User.LastName := y\<rparr>) (dec_string v (User.LastName x))
      else if t = ''username'' then store (\<lambda>y. x\<lparr>User.UserName := y\<rparr>) (dec_string v (User.UserName x))
      else Inr x)"

definition dec_User :: "json \<Rightarrow> User \<Rightarrow> decode_error + User" where
  "dec_User = dec_struct User_tags set_User_field"

definition Chat_tags :: "string list" where
  "Chat_tags = [''id'', ''type'', ''title'', ''username'', ''first_name'', ''last_name'', ''all_members_are_administrators'']"

definition set_Chat_field :: "string \<Rightarrow> json \<Rightarrow> Chat \<Rightarrow> decode_error + Chat" where
  "set_Chat_field t v x =
     (if t = ''id'' then store (\<lambda>y. x\<lparr>Chat.ID := y\<rparr>) (dec_int v (Chat.ID x))
      else if t = ''type'' then store (\<lambda>y. x\<lparr>Chat.Type := y\<rparr>) (dec_string v (Chat.Type x))
      else if t = ''title'' then store (\<lambda>y. x\<lparr>Chat.Title := y\<rparr>) (dec_string v (Chat.Title x))
      else if t = ''username'' then store (\<lambda>y. x\<lparr>Chat.UserName := y\<rparr>) (dec_string v (Chat.UserName x))
      else if t = ''first_name'' then store (\<lambda>y. x\<lparr>Chat.FirstName := y\<rparr>) (dec_string v (Chat.FirstName x))
      else if t = ''last_name'' then store (\<lambda>y. x\<lparr>Chat.LastName := y\<rparr>) (dec_string v (Chat.LastName x))
      else if t = ''all_members_are_administrators'' then store (\<lambda>y. x\<lparr>Chat.AllMembersAreAdmins := y\<rparr>) (dec_bool v (Chat.AllMembersAreAdmins x))
      else Inr x)"

definition dec_Chat :: "json \<Rightarrow> Chat \<Rightarrow> decode_error + Chat" where
  "dec_Chat = dec_struct Chat_tags set_Chat_field"

definition MessageEntity_tags :: "string list" where
  "MessageEntity_tags = [''type'', ''offset'', ''length'', ''url'', ''user'']"

definition set_MessageEntity_field :: "string \<Rightarrow> json \<Rightarrow> MessageEntity \<Rightarrow> decode_error + MessageEntity" where
  "set_MessageEntity_field t v x =
     (if t = ''type'' then store (\<lambda>y. x\<lparr>MessageEntity.Type := y\<rparr>) (dec_string v (MessageEntity.Type x))
      else if t = ''offset'' then store (\<lambda>y. x\<lparr>MessageEntity.Offset := y\<rparr>) (dec_int v (MessageEntity.Offset x))
      else if t = ''length'' then store (\<lambda>y. x\<lparr>MessageEntity.Length := y\<rparr>) (dec_int v (MessageEntity.Length x))
      else if t = ''url'' then store (\<lambda>y. x\<lparr>MessageEntity.URL := y\<rparr>) (dec_string v (MessageEntity.URL x))
      else if t = ''user'' then store (\<lambda>y. x\<lparr>MessageEntity.User := y\<rparr>) (dec_ptr dec_User zero_User v (MessageEntity.User x))
      else Inr x)"

definition dec_MessageEntity :: "json \<Rightarrow> MessageEntity \<Rightarrow> decode_error + MessageEntity" where
  "dec_MessageEntity = dec_struct MessageEntity_tags set_MessageEntity_field"

definition PhotoSize_tags :: "string list" where
  "PhotoSize_tags = [''file_id'', ''width'', ''height'', ''file_size'']"

definition set_PhotoSize_field :: "string \<Rightarrow> json \<Rightarrow> PhotoSize \<Rightarrow> decode_error + PhotoSize" where
  "set_PhotoSize_field t v x =
     (if t = ''file_id'' then store (\<lambda>y. x\<lparr>PhotoSize.FileID := y\<rparr>) (dec_string v (PhotoSize.FileID x))
      else if t = ''width'' then store (\<lambda>y. x\<lparr>PhotoSize.Width := y\<rparr>) (dec_int v (PhotoSize.Width x))
      else if t = ''height'' then store (\<lambda>y. x\<lparr>PhotoSize.Height := y\<rparr>) (dec_int v (PhotoSize.Height x))
      else if t = ''file_size'' then store (\<lambda>y. x\<lparr>PhotoSize.FileSize := y\<rparr>) (dec_int v (PhotoSize.FileSize x))
      else Inr x)"

definition dec_PhotoSize :: "json \<Rightarrow> PhotoSize \<Rightarrow> decode_error + PhotoSize" where
  "dec_PhotoSize = dec_struct PhotoSize_tags set_PhotoSize_field"

definition Audio_tags :: "string list" where
  "Audio_tags = [''file_id'', ''duration'', ''performer'', ''title'', ''mime_type'', ''file_size'']"

definition set_Audio_field :: "string \<Rightarrow> json \<Rightarrow> Audio \<Rightarrow> decode_error + Audio" where
  "set_Audio_field t v x =
     (if t = ''file_id'' then store (\<lambda>y. x\<lparr>Audio.FileID := y\<rparr>) (dec_string v (Audio.FileID x))
      else if t = ''duration'' then store (\<lambda>y. x\<lparr>Audio.Duration := y\<rparr>) (dec_int v (Audio.Duration x))
      else if t = ''performer'' then store (\<lambda>y. x\<lparr>Audio.Performer := y\<rparr>) (dec_string v (Audio.Performer x))
      else if t = ''title'' then store (\<lambda>y. x\<lparr>Audio.Title := y\<rparr>) (dec_string v (Audio.Title x))
      else if t = ''mime_type'' then store (\<lambda>y. x\<lparr>Audio.MimeType := y\<rparr>) (dec_string v (Audio.MimeType x))
      else if t = ''file_size'' then store (\<lambda>y. x\<lparr>Audio.FileSize := y\<rparr>) (dec_int v (Audio.FileSize x))
      else Inr x)"

definition dec_Audio :: "json \<Rightarrow> Audio \<Rightarrow> decode_error + Audio" where
  "dec_Audio = dec_struct Audio_tags set_Audio_field"

definition Document_tags :: "string list" where
  "Document_tags = [''file_id'', ''thumb'', ''file_name'', ''mime_type'', ''file_size'']"

definition set_Document_field :: "string \<Rightarrow> json \<Rightarrow> Document \<Rightarrow> decode_error + Document" where
  "set_Document_field t v x =
     (if t = ''file_id'' then store (\<lambda>y. x\<lparr>Document.FileID := y\<rparr>) (dec_string v (Document.FileID x))
      else if t = ''thumb'' then store (\<lambda>y. x\<lparr>Document.Thumbnail := y\<rparr>) (dec_ptr dec_PhotoSize zero_PhotoSize v (Document.Thumbnail x))
      else if t = ''file_name'' then store (\<lambda>y. x\<lparr>Document.FileName := y\<rparr>) (dec_string v (Document.FileName x))
      else if t = ''mime_type'' then store (\<lambda>y. x\<lparr>Document.MimeType := y\<rparr>) (dec_string v (Document.MimeType x))
      else if t = ''file_size'' then store (\<lambda>y. x\<lparr>Document.FileSize := y\<rparr>) (dec_int v (Document.FileSize x))
      else Inr x)"

definition dec_Document :: "json \<Rightarrow> Document \<Rightarrow> decode_error + Document" where
  "dec_Document = dec_struct Document_tags set_Document_field"

definition Sticker_tags :: "string list" where
  "Sticker_tags = [''file_id'', ''width'', ''height'', ''thumb'', ''emoji'', ''file_size'']"

definition set_Sticker_field :: "string \<Rightarrow> json \<Rightarrow> Sticker \<Rightarrow> decode_error + Sticker" where
  "set_Sticker_field t v x =
     (if t = ''file_id'' then store (\<lambda>y. x\<lparr>Sticker.FileID := y\<rparr>) (dec_string v (Sticker.FileID x))
      else if t = ''width'' then store (\<lambda>y. x\<lparr>Sticker.Width := y\<rparr>) (dec_int v (Sticker.Width x))
      else if t = ''height'' then store (\<lambda>y. x\<lparr>Sticker.Height := y\<rparr>) (dec_int v (Sticker.Height x))
      else if t = ''thumb'' then store (\<lambda>y. x\<lparr>Sticker.Thumbnail := y\<rparr>) (dec_ptr dec_PhotoSize zero_PhotoSize v (Sticker.Thumbnail x))
      else if t = ''emoji'' then store (\<lambda>y. x\<lparr>Sticker.Emoji := y\<rparr>) (dec_string v (Sticker.Emoji x))
      else if t = ''file_size'' then store (\<lambda>y. x\<lparr>Sticker.FileSize := y\<rparr>) (dec_int v (Sticker.FileSize x))
      else Inr x)"

definition dec_Sticker :: "json \<Rightarrow> Sticker \<Rightarrow> decode_error + Sticker" where
  "dec_Sticker = dec_struct Sticker_tags set_Sticker_field"

definition Video_tags :: "string list" where
  "Video_tags = [''file_id'', ''width'', ''height'', ''duration'', ''thumb'', ''mime_type'', ''file_size'']"

definition set_Video_field :: "string \<Rightarrow> json \<Rightarrow> Video \<Rightarrow> decode_error + Video" where
  "set_Video_field t v x =
     (if t = ''file_id'' then store (\<lambda>y. x\<lparr>Video.FileID := y\<rparr>) (dec_string v (Video.FileID x))
      else if t = ''width'' then store (\<lambda>y. x\<lparr>Video.Width := y\<rparr>) (dec_int v (Video.Width x))
      else if t = ''height'' then store (\<lambda>y. x\<lparr>Video.Height := y\<rparr>) (dec_int v (Video.Height x))
      else if t = ''duration'' then store (\<lambda>y. x\<lparr>Video.Duration := y\<rparr>) (dec_int v (Video.Duration x))
      else if t = ''thumb'' then store (\<lambda>y. x\<lparr>Video.Thumbnail := y\<rparr>) (dec_ptr dec_PhotoSize zero_PhotoSize v (Video.Thumbnail x))
      else if t = ''mime_type'' then store (\<lambda>y. x\<lparr>Video.MimeType := y\<rparr>) (dec_string v (Video.MimeType x))
      else if t = ''file_size'' then store (\<lambda>y. x\<lparr>Video.FileSize := y\<rparr>) (dec_int v (Video.FileSize x))
      else Inr x)"

definition dec_Video :: "json \<Rightarrow> Video \<Rightarrow> decode_error + Video" where
  "dec_Video = dec_struct Video_tags set_Video_field"

definition Voice_tags :: "string list" where
  "Voice_tags = [''file_id'', ''duration'', ''mime_type'', ''file_size'']"

definition set_Voice_field :: "string \<Rightarrow> json \<Rightarrow> Voice \<Rightarrow> decode_error + Voice" where
  "set_Voice_field t v x =
     (if t = ''file_id'' then store (\<lambda>y. x\<lparr>Voice.FileID := y\<rparr>) (dec_string v (Voice.FileID x))
      else if t = ''duration'' then store (\<lambda>y. x\<lparr>Voice.Duration := y\<rparr>) (dec_int v (Voice.Duration x))
      else if t = ''mime_type'' then store (\<lambda>y. x\<lparr>Voice.MimeType := y\<rparr>) (dec_string v (Voice.MimeType x))
      else if t = ''file_size'' then store (\<lambda>y. x\<lparr>Voice.FileSize := y\<rparr>) (dec_int v (Voice.FileSize x))
      else Inr x)"

definition dec_Voice :: "json \<Rightarrow> Voice \<Rightarrow> decode_error + Voice" where
  "dec_Voice = dec_struct Voice_tags set_Voice_field"

definition Contact_tags :: "string list" where
  "Contact_tags = [''phone_number'', ''first_name'', ''last_name'', ''user_id'']"

definition set_Contact_field :: "string \<Rightarrow> json \<Rightarrow> Contact \<Rightarrow> decode_error + Contact" where
  "set_Contact_field t v x =
     (if t = ''phone_number'' then store (\<lambda>y. x\<lparr>Contact.PhoneNumber := y\<rparr>) (dec_string v (Contact.PhoneNumber x))
      else if t = ''first_name'' then store (\<lambda>y. x\<lparr>Contact.FirstName := y\<rparr>) (dec_string v (Contact.FirstName x))
      else if t = ''last_name'' then store (\<lambda>y. x\<lparr>Contact.LastName := y\<rparr>) (dec_string v (Contact.LastName x))
      else if t = ''user_id'' then store (\<lambda>y. x\<lparr>Contact.UserID := y\<rparr>) (dec_int v (Contact.UserID x))
      else Inr x)"

definition dec_Contact :: "json \<Rightarrow> Contact \<Rightarrow> decode_error + Contact" where
  "dec_Contact = dec_struct Contact_tags set_Contact_field"

definition Location_tags :: "string list" where
  "Location_tags = [''longitude'', ''latitude'']"

definition set_Location_field :: "string \<Rightarrow> json \<Rightarrow> Location \<Rightarrow> decode_error + Location" where
  "set_Location_field t v x =
     (if t = ''longitude'' then store (\<lambda>y. x\<lparr>Location.Longitude := y\<rparr>) (dec_float64 v (Location.Longitude x))
      else if t = ''latitude'' then store (\<lambda>y. x\<lparr>Location.Latitude := y\<rparr>) (dec_float64 v (Location.Latitude x))
      else Inr x)"

definition dec_Location :: "json \<Rightarrow> Location \<Rightarrow> decode_error + Location" where
  "dec_Location = dec_struct Location_tags set_Location_field"

definition Venue_tags :: "string list" where
  "Venue_tags = [''location'', ''title'', ''address'', ''foursquare_id'']"

definition set_Venue_field :: "string \<Rightarrow> json \<Rightarrow> Venue \<Rightarrow> decode_error + Venue" where
  "set_Venue_field t v x =
     (if t = ''location'' then store (\<lambda>y. x\<lparr>Venue.Location := y\<rparr>) (dec_Location v (Venue.Location x))
      else if t = ''title'' then store (\<lambda>y. x\<lparr>Venue.Title := y\<rparr>) (dec_string v (Venue.Title x))
      else if t = ''address'' then store (\<lambda>y. x\<lparr>Venue.Address := y\<rparr>) (dec_string v (Venue.Address x))
      else if t = ''foursquare_id'' then store (\<lambda>y. x\<lparr>Venue.FoursquareID := y\<rparr>) (dec_string v (Venue.FoursquareID x))
      else Inr x)"

definition dec_Venue :: "json \<Rightarrow> Venue \<Rightarrow> decode_error + Venue" where
  "dec_Venue = dec_struct Venue_tags set_Venue_field"

definition Animation_tags :: "string list" where
  "Animation_tags = [''file_id'', ''thumb'', ''file_name'', ''mime_type'', ''file_size'']"

definition set_Animation_field :: "string \<Rightarrow> json \<Rightarrow> Animation \<Rightarrow> decode_error + Animation" where
  "set_Animation_field t v x =
     (if t = ''file_id'' then store (\<lambda>y. x\<lparr>Animation.FileID := y\<rparr>) (dec_string v (Animation.FileID x))
      else if t = ''thumb'' then store (\<lambda>y. x\<lparr>Animation.Thumb := y\<rparr>) (dec_PhotoSize v (Animation.Thumb x))
      else if t = ''file_name'' then store (\<lambda>y. x\<lparr>Animation.FileName := y\<rparr>) (dec_string v (Animation.FileName x))
      else if t = ''mime_type'' then store (\<lambda>y. x\<lparr>Animation.MimeType := y\<rparr>) (dec_string v (Animation.MimeType x))
      else if t = ''file_size'' then store (\<lambda>y. x\<lparr>Animation.FileSize := y\<rparr>) (dec_int v (Animation.FileSize x))
      else Inr x)"

definition dec_Animation :: "json \<Rightarrow> Animation \<Rightarrow> decode_error + Animation" where
  "dec_Animation = dec_struct Animation_tags set_Animation_field"

definition Game_tags :: "string list" where
  "Game_tags = [''title'', ''description'', ''photo'', ''text'', ''text_entities'', ''animation'']"

definition set_Game_field :: "string \<Rightarrow> json \<Rightarrow> Game \<Rightarrow> decode_error + Game" where
  "set_Game_field t v x =
     (if t = ''title'' then store (\<lambda>y. x\<lparr>Game.Title := y\<rparr>) (dec_string v (Game.Title x))
      else if t = ''description'' then store (\<lambda>y. x\<lparr>Game.Description := y\<rparr>) (dec_string v (Game.Description x))
      else if t = ''photo'' then store (\<lambda>y. x\<lparr>Game.Photo := y\<rparr>) (dec_slice dec_PhotoSize zero_PhotoSize v (Game.Photo x))
      else if t = ''text'' then store (\<lambda>y. x\<lparr>Game.Text := y\<rparr>) (dec_string v (Game.Text x))
      else if t = ''text_entities'' then store (\<lambda>y. x\<lparr>Game.TextEntities := y\<rparr>) (dec_slice dec_MessageEntity zero_MessageEntity v (Game.TextEntities x))
      else if t = ''animation'' then store (\<lambda>y. x\<lparr>Game.Animation := y\<rparr>) (dec_Animation v (Game.Animation x))
      else Inr x)"

definition dec_Game :: "json \<Rightarrow> Game \<Rightarrow> decode_error + Game" where
  "dec_Game = dec_struct Game_tags set_Game_field"

text \<open>
  \<^verbatim>\<open>Message\<close> refers to itself through \<^verbatim>\<open>ReplyToMessage\<close> and \<^verbatim>\<open>PinnedMessage\<close>, so
  its decoder is recursive: the two pointers are decoded by the decoder of \<^verbatim>\<open>Message\<close>
  itself, the other fields as above.
\<close>

definition Message_tags :: "string list" where
  "Message_tags = [''message_id'', ''from'', ''date'', ''chat'', ''forward_from'', ''forward_from_chat'', ''forward_from_message_id'', ''forward_date'', ''reply_to_message'', ''edit_date'', ''text'', ''entities'', ''audio'', ''document'', ''game'', ''photo'', ''sticker'', ''video'', ''voice'', ''caption'', ''contact'', ''location'', ''venue'', ''new_chat_member'', ''left_chat_member'', ''new_chat_title'', ''new_chat_photo'', ''delete_chat_photo'', ''group_chat_created'', ''supergroup_chat_created'', ''channel_chat_created'', ''migrate_to_chat_id'', ''migrate_from_chat_id'', ''pinned_message'']"

definition set_Message_fields_field ::
  "string \<Rightarrow> json \<Rightarrow> Message_fields \<Rightarrow> decode_error + Message_fields" where
  "set_Message_fields_field t v x =
     (if t = ''message_id'' then store (\<lambda>y. x\<lparr>Message_fields.MessageID := y\<rparr>) (dec_int v (Message_fields.MessageID x))
      else if t = ''from'' then store (\<lambda>y. x\<lparr>Message_fields.From := y\<rparr>) (dec_ptr dec_User zero_User v (Message_fields.From x))
      else if t = ''date'' then store (\<lambda>y. x\<lparr>Message_fields.Date := y\<rparr>) (dec_int v (Message_fields.Date x))
      else if t = ''chat'' then store (\<lambda>y. x\<lparr>Message_fields.Chat := y\<rparr>) (dec_ptr dec_Chat zero_Chat v (Message_fields.Chat x))
      else if t = ''forward_from'' then store (\<lambda>y. x\<lparr>Message_fields.ForwardFrom := y\<rparr>) (dec_ptr dec_User zero_User v (Message_fields.ForwardFrom x))
      else if t = ''forward_from_chat'' then store (\<lambda>y. x\<lparr>Message_fields.ForwardFromChat := y\<rparr>) (dec_ptr dec_Chat zero_Chat v (Message_fields.ForwardFromChat x))
      else if t = ''forward_from_message_id'' then store (\<lambda>y. x\<lparr>Message_fields.ForwardFromMessageID := y\<rparr>) (dec_int v (Message_fields.ForwardFromMessageID x))
      else if t = ''forward_date'' then store (\<lambda>y. x\<lparr>Message_fields.ForwardDate := y\<rparr>) (dec_int v (Message_fields.ForwardDate x))
      else if t = ''edit_date'' then store (\<lambda>y. x\<lparr>Message_fields.EditDate := y\<rparr>) (dec_int v (Message_fields.EditDate x))
      else if t = ''text'' then store (\<lambda>y. x\<lparr>Message_fields.Text := y\<rparr>) (dec_string v (Message_fields.Text x))
      else if t = ''entities'' then store (\<lambda>y. x\<lparr>Message_fields.Entities := y\<rparr>) (dec_ptr (dec_slice dec_MessageEntity zero_MessageEntity) [] v (Message_fields.Entities x))
      else if t = ''audio'' then store (\<lambda>y. x\<lparr>Message_fields.Audio := y\<rparr>) (dec_ptr dec_Audio zero_Audio v (Message_fields.Audio x))
      else if t = ''document'' then store (\<lambda>y. x\<lparr>Message_fields.Document := y\<rparr>) (dec_ptr dec_Document zero_Document v (Message_fields.Document x))
      else if t = ''game'' then store (\<lambda>y. x\<lparr>Message_fields.Game := y\<rparr>) (dec_ptr dec_Game zero_Game v (Message_fields.Game x))
      else if t = ''photo'' then store (\<lambda>y. x\<lparr>Message_fields.Photo := y\<rparr>) (dec_ptr (dec_slice dec_PhotoSize zero_PhotoSize) [] v (Message_fields.Photo x))
      else if t = ''sticker'' then store (\<lambda>y. x\<lparr>Message_fields.Sticker := y\<rparr>) (dec_ptr dec_Sticker zero_Sticker v (Message_fields.Sticker x))
      else if t = ''video'' then store (\<lambda>y. x\<lparr>Message_fields.Video := y\<rparr>) (dec_ptr dec_Video zero_Video v (Message_fields.Video x))
      else if t = ''voice'' then store (\<lambda>y. x\<lparr>Message_fields.Voice := y\<rparr>) (dec_ptr dec_Voice zero_Voice v (Message_fields.Voice x))
      else if t = ''caption'' then store (\<lambda>y. x\<lparr>Message_fields.Caption := y\<rparr>) (dec_string v (Message_fields.Caption x))
      else if t = ''contact'' then store (\<lambda>y. x\<lparr>Message_fields.Contact := y\<rparr>) (dec_ptr dec_Contact zero_Contact v (Message_fields.Contact x))
      else if t = ''location'' then store (\<lambda>y. x\<lparr>Message_fields.Location := y\<rparr>) (dec_ptr dec_Location zero_Location v (Message_fields.Location x))
      else if t = ''venue'' then store (\<lambda>y. x\<lparr>Message_fields.Venue := y\<rparr>) (dec_ptr dec_Venue zero_Venue v (Message_fields.Venue x))
      else if t = ''new_chat_member'' then store (\<lambda>y. x\<lparr>Message_fields.NewChatMember := y\<rparr>) (dec_ptr dec_User zero_User v (Message_fields.NewChatMember x))
      else if t = ''left_chat_member'' then store (\<lambda>y. x\<lparr>Message_fields.LeftChatMember := y\<rparr>) (dec_ptr dec_User zero_User v (Message_fields.LeftChatMember x))
      else if t = ''new_chat_title'' then store (\<lambda>y. x\<lparr>Message_fields.NewChatTitle := y\<rparr>) (dec_string v (Message_fields.NewChatTitle x))
      else if t = ''new_chat_photo'' then store (\<lambda>y. x\<lparr>Message_fields.NewChatPhoto := y\<rparr>) (dec_ptr (dec_slice dec_PhotoSize zero_PhotoSize) [] v (Message_fields.NewChatPhoto x))
      else if t = ''delete_chat_photo'' then store (\<lambda>y. x\<lparr>Message_fields.DeleteChatPhoto := y\<rparr>) (dec_bool v (Message_fields.DeleteChatPhoto x))
      else if t = ''group_chat_created'' then store (\<lambda>y. x\<lparr>Message_fields.GroupChatCreated := y\<rparr>) (dec_bool v (Message_fields.GroupChatCreated x))
      else if t = ''supergroup_chat_created'' then store (\<lambda>y. x\<lparr>Message_fields.SuperGroupChatCreated := y\<rparr>) (dec_bool v (Message_fields.SuperGroupChatCreated x))
      else if t = ''channel_chat_created'' then store (\<lambda>y. x\<lparr>Message_fields.ChannelChatCreated := y\<rparr>) (dec_bool v (Message_fields.ChannelChatCreated x))
      else if t = ''migrate_to_chat_id'' then store (\<lambda>y. x\<lparr>Message_fields.MigrateToChatID := y\<rparr>) (dec_int v (Message_fields.MigrateToChatID x))
      else if t = ''migrate_from_chat_id'' then store (\<lambda>y. x\<lparr>Message_fields.MigrateFromChatID := y\<rparr>) (dec_int v (Message_fields.MigrateFromChatID x))
      else Inr x)"

fun dec_Message :: "json \<Rightarrow> Message \<Rightarrow> decode_error + Message"
  and Message_members :: "(string \<times> json) list \<Rightarrow> Message \<Rightarrow> decode_error + Message" where
  "dec_Message JNull cur = Inr cur"
| "dec_Message (JObject ms) cur = Message_members ms cur"
| "dec_Message (JBool b) cur = Inl UnmarshalTypeError"
| "dec_Message (JNumber n) cur = Inl UnmarshalTypeError"
| "dec_Message (JString s) cur = Inl UnmarshalTypeError"
| "dec_Message (JArray xs) cur = Inl UnmarshalTypeError"
| "Message_members [] cur = Inr cur"
| "Message_members ((k, v) # ms) cur =
     (case field_of Message_tags k of
        None \<Rightarrow> Message_members ms cur
      | Some t \<Rightarrow>
          if t = ''reply_to_message'' then
            (if v = JNull then Message_members ms (MkMessage (body cur) None (PinnedMessage cur))
             else (case dec_Message v (case ReplyToMessage cur of None \<Rightarrow> zero_Message | Some m \<Rightarrow> m) of
                     Inl e \<Rightarrow> Inl e
                   | Inr m \<Rightarrow> Message_members ms (MkMessage (body cur) (Some m) (PinnedMessage cur))))
          else if t = ''pinned_message'' then
            (if v = JNull then Message_members ms (MkMessage (body cur) (ReplyToMessage cur) None)
             else (case dec_Message v (case PinnedMessage cur of None \<Rightarrow> zero_Message | Some m \<Rightarrow> m) of
                     Inl e \<Rightarrow> Inl e
                   | Inr m \<Rightarrow> Message_members ms (MkMessage (body cur) (ReplyToMessage cur) (Some m))))
          else
            (case set_Message_fields_field t v (body cur) of
               Inl e \<Rightarrow> Inl e
             | Inr b \<Rightarrow> Message_members ms (MkMessage b (ReplyToMessage cur) (PinnedMessage cur))))"

definition InlineQuery_tags :: "string list" where
  "InlineQuery_tags = [''id'', ''from'', ''location'', ''query'', ''offset'']"

definition set_InlineQuery_field :: "string \<Rightarrow> json \<Rightarrow> InlineQuery \<Rightarrow> decode_error + InlineQuery" where
  "set_InlineQuery_field t v x =
     (if t = ''id'' then store (\<lambda>y. x\<lparr>InlineQuery.ID := y\<rparr>) (dec_string v (InlineQuery.ID x))
      else if t = ''from'' then store (\<lambda>y. x\<lparr>InlineQuery.From := y\<rparr>) (dec_ptr dec_User zero_User v (InlineQuery.From x))
      else if t = ''location'' then store (\<lambda>y. x\<lparr>InlineQuery.Location := y\<rparr>) (dec_ptr dec_Location zero_Location v (InlineQuery.Location x))
      else if t = ''query'' then store (\<lambda>y. x\<lparr>InlineQuery.Query := y\<rparr>) (dec_string v (InlineQuery.Query x))
      else if t = ''offset'' then store (\<lambda>y. x\<lparr>InlineQuery.Offset := y\<rparr>) (dec_string v (InlineQuery.Offset x))
      else Inr x)"

definition dec_InlineQuery :: "json \<Rightarrow> InlineQuery \<Rightarrow> decode_error + InlineQuery" where
  "dec_InlineQuery = dec_struct InlineQuery_tags set_InlineQuery_field"

definition ChosenInlineResult_tags :: "string list" where
  "ChosenInlineResult_tags = [''result_id'', ''from'', ''location'', ''inline_message_id'', ''query'']"

definition set_ChosenInlineResult_field :: "string \<Rightarrow> json \<Rightarrow> ChosenInlineResult \<Rightarrow> decode_error + ChosenInlineResult" where
  "set_ChosenInlineResult_field t v x =
     (if t = ''result_id'' then store (\<lambda>y. x\<lparr>ChosenInlineResult.ResultID := y\<rparr>) (dec_string v (ChosenInlineResult.ResultID x))
      else if t = ''from'' then store (\<lambda>y. x\<lparr>ChosenInlineResult.From := y\<rparr>) (dec_ptr dec_User zero_User v (ChosenInlineResult.From x))
      else if t = ''location'' then store (\<lambda>y. x\<lparr>ChosenInlineResult.Location := y\<rparr>) (dec_ptr dec_Location zero_Location v (ChosenInlineResult.Location x))
      else if t = ''inline_message_id'' then store (\<lambda>y. x\<lparr>ChosenInlineResult.InlineMessageID := y\<rparr>) (dec_string v (ChosenInlineResult.InlineMessageID x))
      else if t = ''query'' then store (\<lambda>y. x\<lparr>ChosenInlineResult.Query := y\<rparr>) (dec_string v (ChosenInlineResult.Query x))
      else Inr x)"

definition dec_ChosenInlineResult :: "json \<Rightarrow> ChosenInlineResult \<Rightarrow> decode_error + ChosenInlineResult" where
  "dec_ChosenInlineResult = dec_struct ChosenInlineResult_tags set_ChosenInlineResult_field"

definition CallbackQuery_tags :: "string list" where
  "CallbackQuery_tags = [''id'', ''from'', ''message'', ''inline_message_id'', ''chat_instance'', ''data'', ''game_short_name'']"

definition set_CallbackQuery_field :: "string \<Rightarrow> json \<Rightarrow> CallbackQuery \<Rightarrow> decode_error + CallbackQuery" where
  "set_CallbackQuery_field t v x =
     (if t = ''id'' then store (\<lambda>y. x\<lparr>CallbackQuery.ID := y\<rparr>) (dec_string v (CallbackQuery.ID x))
      else if t = ''from'' then store (\<lambda>y. x\<lparr>CallbackQuery.From := y\<rparr>) (dec_ptr dec_User zero_User v (CallbackQuery.From x))
      else if t = ''message'' then store (\<lambda>y. x\<lparr>CallbackQuery.Message := y\<rparr>) (dec_ptr dec_Message zero_Message v (CallbackQuery.Message x))
      else if t = ''inline_message_id'' then store (\<lambda>y. x\<lparr>CallbackQuery.InlineMessageID := y\<rparr>) (dec_string v (CallbackQuery.InlineMessageID x))
      else if t = ''chat_instance'' then store (\<lambda>y. x\<lparr>CallbackQuery.ChatInstance := y\<rparr>) (dec_string v (CallbackQuery.ChatInstance x))
      else if t = ''data'' then store (\<lambda>y. x\<lparr>CallbackQuery.Data := y\<rparr>) (dec_string v (CallbackQuery.Data x))
      else if t = ''game_short_name'' then store (\<lambda>y. x\<lparr>CallbackQuery.GameShortName := y\<rparr>) (dec_string v (CallbackQuery.GameShortName x))
      else Inr x)"

definition dec_CallbackQuery :: "json \<Rightarrow> CallbackQuery \<Rightarrow> decode_error + CallbackQuery" where
  "dec_CallbackQuery = dec_struct CallbackQuery_tags set_CallbackQuery_field"

definition Update_tags :: "string list" where
  "Update_tags = [''update_id'', ''message'', ''edited_message'', ''channel_post'', ''edited_channel_post'', ''inline_query'', ''chosen_inline_result'', ''callback_query'']"

definition set_Update_field :: "string \<Rightarrow> json \<Rightarrow> Update \<Rightarrow> decode_error + Update" where
  "set_Update_field t v x =
     (if t = ''update_id'' then store (\<lambda>y. x\<lparr>Update.UpdateID := y\<rparr>) (dec_int v (Update.UpdateID x))
      else if t = ''message'' then store (\<lambda>y. x\<lparr>Update.Message := y\<rparr>) (dec_ptr dec_Message zero_Message v (Update.Message x))
      else if t = ''edited_message'' then store (\<lambda>y. x\<lparr>Update.EditedMessage := y\<rparr>) (dec_ptr dec_Message zero_Message v (Update.EditedMessage x))
      else if t = ''channel_post'' then store (\<lambda>y. x\<lparr>Update.ChannelPost := y\<rparr>) (dec_ptr dec_Message zero_Message v (Update.ChannelPost x))
      else if t = ''edited_channel_post'' then store (\<lambda>y. x\<lparr>Update.EditedChannelPost := y\<rparr>) (dec_ptr dec_Message zero_Message v (Update.EditedChannelPost x))
      else if t = ''inline_query'' then store (\<lambda>y. x\<lparr>Update.InlineQuery := y\<rparr>) (dec_ptr dec_InlineQuery zero_InlineQuery v (Update.InlineQuery x))
      else if t = ''chosen_inline_result'' then store (\<lambda>y. x\<lparr>Update.ChosenInlineResult := y\<rparr>) (dec_ptr dec_ChosenInlineResult zero_ChosenInlineResult v (Update.ChosenInlineResult x))
      else if t = ''callback_query'' then store (\<lambda>y. x\<lparr>Update.CallbackQuery := y\<rparr>) (dec_ptr dec_CallbackQuery zero_CallbackQuery v (Update.CallbackQuery x))
      else Inr x)"

definition dec_Update :: "json \<Rightarrow> Update \<Rightarrow> decode_error + Update" where
  "dec_Update = dec_struct Update_tags set_Update_field"

definition ResponseParameters_tags :: "string list" where
  "ResponseParameters_tags = [''migrate_to_chat_id'', ''retry_after'']"

definition set_ResponseParameters_field :: "string \<Rightarrow> json \<Rightarrow> ResponseParameters \<Rightarrow> decode_error + ResponseParameters" where
  "set_ResponseParameters_field t v x =
     (if t = ''migrate_to_chat_id'' then store (\<lambda>y. x\<lparr>ResponseParameters.MigrateToChatID := y\<rparr>) (dec_int v (ResponseParameters.MigrateToChatID x))
      else if t = ''retry_after'' then store (\<lambda>y. x\<lparr>ResponseParameters.RetryAfter := y\<rparr>) (dec_int v (ResponseParameters.RetryAfter x))
      else Inr x)"

definition dec_ResponseParameters :: "json \<Rightarrow> ResponseParameters \<Rightarrow> decode_error + ResponseParameters" where
  "dec_ResponseParameters = dec_struct ResponseParameters_tags set_ResponseParameters_field"

definition APIResponse_tags :: "string list" where
  "APIResponse_tags = [''ok'', ''result'', ''error_code'', ''description'', ''parameters'']"

definition set_APIResponse_field :: "string \<Rightarrow> json \<Rightarrow> APIResponse \<Rightarrow> decode_error + APIResponse" where
  "set_APIResponse_field t v x =
     (if t = ''ok'' then store (\<lambda>y. x\<lparr>APIResponse.Ok := y\<rparr>) (dec_bool v (APIResponse.Ok x))
      else if t = ''result'' then store (\<lambda>y. x\<lparr>APIResponse.Result := y\<rparr>) (dec_RawMessage v (APIResponse.Result x))
      else if t = ''error_code'' then store (\<lambda>y. x\<lparr>APIResponse.ErrorCode := y\<rparr>) (dec_int v (APIResponse.ErrorCode x))
      else if t = ''description'' then store (\<lambda>y. x\<lparr>APIResponse.Description := y\<rparr>) (dec_string v (APIResponse.Description x))
      else if t = ''parameters'' then store (\<lambda>y. x\<lparr>APIResponse.Parameters := y\<rparr>) (dec_ptr dec_ResponseParameters zero_ResponseParameters v (APIResponse.Parameters x))
      else Inr x)"

definition dec_APIResponse :: "json \<Rightarrow> APIResponse \<Rightarrow> decode_error + APIResponse" where
  "dec_APIResponse = dec_struct APIResponse_tags set_APIResponse_field"

text \<open>\<^verbatim>\<open>json.Unmarshal(data, &v)\<close> with \<open>v\<close> a fresh variable of the type.\<close>

definition Unmarshal_Update :: "json \<Rightarrow> decode_error + Update" where
  "Unmarshal_Update j = dec_Update j zero_Update"

definition Unmarshal_Message :: "json \<Rightarrow> decode_error + Message" where
  "Unmarshal_Message j = dec_Message j zero_Message"

definition Unmarshal_APIResponse :: "json \<Rightarrow> decode_error + APIResponse" where
  "Unmarshal_APIResponse j = dec_APIResponse j zero_APIResponse"

subsection \<open>Reading a JSON object\<close>

text \<open>
  The value that a struct field gets from an object is the value of the last member
  whose key selects the field. A key is populated when that value exists and is not
  \<^verbatim>\<open>null\<close>.
\<close>

fun last_member :: "string list \<Rightarrow> string \<Rightarrow> (string \<times> json) list \<Rightarrow> json option" where
  "last_member tags t [] = None"
| "last_member tags t ((k, v) # ms) =
     (case last_member tags t ms of
        Some w \<Rightarrow> Some w
      | None \<Rightarrow> if field_of tags k = Some t then Some v else None)"

definition populated :: "string list \<Rightarrow> string \<Rightarrow> (string \<times> json) list \<Rightarrow> bool" where
  "populated tags t ms = (case last_member tags t ms of None \<Rightarrow> False | Some v \<Rightarrow> v \<noteq> JNull)"

text \<open>The seven optional parts of an update, as keys and as fields.\<close>

definition payload_tags :: "string list" where
  "payload_tags = [''message'', ''edited_message'', ''channel_post'', ''edited_channel_post'',
     ''inline_query'', ''chosen_inline_result'', ''callback_query'']"

definition sub_payloads :: "Update \<Rightarrow> bool list" where
  "sub_payloads u =
     [Update.Message u \<noteq> None, EditedMessage u \<noteq> None, ChannelPost u \<noteq> None,
      EditedChannelPost u \<noteq> None, Update.InlineQuery u \<noteq> None,
      Update.ChosenInlineResult u \<noteq> None, Update.CallbackQuery u \<noteq> None]"

text \<open>The reply chain of a message: \<^verbatim>\<open>m.ReplyToMessage.ReplyToMessage\<close> and its length.\<close>

definition grandparent :: "Message \<Rightarrow> Message option" where
  "grandparent m = (case ReplyToMessage m of None \<Rightarrow> None | Some p \<Rightarrow> ReplyToMessage p)"

fun reply_depth :: "Message \<Rightarrow> nat" where
  "reply_depth (MkMessage b r p) = (case r of None \<Rightarrow> 0 | Some m \<Rightarrow> Suc (reply_depth m))"

subsection \<open>Example texts\<close>

text \<open>
  \<^verbatim>\<open>{"update_id":1,"message":{"message_id":7},"callback_query":{"id":"q"}}\<close> and the
  update it decodes to.
\<close>

definition message_numbered :: "int \<Rightarrow> Message option \<Rightarrow> Message" where
  "message_numbered n r = MkMessage (zero_Message_fields\<lparr>MessageID := n\<rparr>) r None"

definition two_payloads :: "(string \<times> json) list" where
  "two_payloads =
     [(''update_id'', JNumber (IntLit 1)),
      (''message'', JObject [(''message_id'', JNumber (IntLit 7))]),
      (''callback_query'', JObject [(''id'', JString ''q'')])]"

definition two_payloads_update :: Update where
  "two_payloads_update =
     zero_Update\<lparr>UpdateID := 1,
       Update.Message := Some (message_numbered 7 None),
       Update.CallbackQuery := Some (zero_CallbackQuery\<lparr>CallbackQuery.ID := ''q''\<rparr>)\<rparr>"

text \<open>
  \<^verbatim>\<open>{"ok":true}\<close>, and \<^verbatim>\<open>{"ok":true,"result":true,"description":"Webhook was set"}\<close>,
  which is what the platform answers to \<^verbatim>\<open>setWebhook\<close>.
\<close>

definition ok_only :: "(string \<times> json) list" where
  "ok_only = [(''ok'', JBool True)]"

definition webhook_reply :: "(string \<times> json) list" where
  "webhook_reply =
     [(''ok'', JBool True), (''result'', JBool True),
      (''description'', JString ''Webhook was set'')]"

text \<open>
  \<^verbatim>\<open>{"message_id":3,"reply_to_message":{"message_id":2,"reply_to_message":{"message_id":1}}}\<close>,
  and a chain of \<open>n\<close> replies.
\<close>

definition nested_reply :: "(string \<times> json) list" where
  "nested_reply =
     [(''message_id'', JNumber (IntLit 3)),
      (''reply_to_message'', JObject
         [(''message_id'', JNumber (IntLit 2)),
          (''reply_to_message'', JObject [(''message_id'', JNumber (IntLit 1))])])]"

fun reply_chain :: "nat \<Rightarrow> json" where
  "reply_chain 0 = JObject [(''message_id'', JNumber (IntLit 1))]"
| "reply_chain (Suc n) =
     JObject [(''message_id'', JNumber (IntLit 1)), (''reply_to_message'', reply_chain n)]"

text \<open>A message whose text is \<^verbatim>\<open>"/"\<close>, a tab and \<^verbatim>\<open>"foo"\<close>.\<close>

definition tab_separated :: Message where
  "tab_separated =
     MkMessage (zero_Message_fields\<lparr>Message_fields.Text := CHR ''/'' # CHR 0x09 # ''foo''\<rparr>) None None"

section \<open>The command accessors and the chat predicates\<close>

lemma Index_char: "Index s [c] = (if c \<in> set s then int (length (takeWhile (\<lambda>x. x \<noteq> c) s)) else - 1)"
  by (induction s) (auto simp: Let_def)

lemma drop_Suc_takeWhile: "c \<in> set s \<Longrightarrow> drop (Suc (length (takeWhile (\<lambda>x. x \<noteq> c) s))) s = tl (dropWhile (\<lambda>x. x \<noteq> c) s)"
  by (induction s) auto

lemma take_length_takeWhile: "take (length (takeWhile P s)) s = takeWhile P s"
  by (induction s) auto

lemma SplitN_space_2:
  "s \<noteq> [] \<Longrightarrow> SplitN s '' '' 2 =
     (if CHR '' '' \<in> set s
      then [takeWhile (\<lambda>x. x \<noteq> CHR '' '') s, tl (dropWhile (\<lambda>x. x \<noteq> CHR '' '') s)]
      else [s])"
proof -
  assume ne: "s \<noteq> []"
  then have len: "\<not> 2 > int (length s) + 1" by (cases s) auto
  have two: "nat (2 - 1) = Suc 0" by simp
  show ?thesis
    unfolding SplitN_def Let_def
    using len
    by (simp add: two Index_char drop_Suc_takeWhile take_length_takeWhile del: One_nat_def)
qed

lemma IsCommand_Some:
  "IsCommand (Some msg) = Inr (case Message_fields.Text (body msg) of [] \<Rightarrow> False | c # _ \<Rightarrow> c = CHR ''/'')"
  by (simp add: IsCommand_def split: list.splits)

lemma takeWhile_no_space: "CHR '' '' \<notin> set t \<Longrightarrow> takeWhile (\<lambda>x. x \<noteq> CHR '' '') t = t"
  by (induction t) auto

lemma length_takeWhile_le_int: "int (length (takeWhile P w)) \<le> int (length w)"
  by (simp add: length_takeWhile_le)

lemma takeWhile_all: "c \<notin> set w \<Longrightarrow> takeWhile (\<lambda>x. x \<noteq> c) w = w"
  by (induction w) auto

lemma strip_at:
  "(let i = Index w ''@'' in if i \<noteq> - 1 then slice_to w i else Inr w) =
     Inr (takeWhile (\<lambda>x. x \<noteq> CHR ''@'') w)"
  by (simp add: Index_char Let_def slice_to_def length_takeWhile_le take_length_takeWhile
        takeWhile_all)

lemma first_token:
  "index_at (SplitN (CHR ''/'' # t) '' '' 2) 0 = Inr (CHR ''/'' # takeWhile (\<lambda>x. x \<noteq> CHR '' '') t)"
  by (simp add: SplitN_space_2 index_at_def takeWhile_all)

lemma Command_Some:
  "Command (Some msg) =
     Inr (case Message_fields.Text (body msg) of
            [] \<Rightarrow> []
          | c # t \<Rightarrow> if c = CHR ''/''
                     then takeWhile (\<lambda>x. x \<noteq> CHR ''@'') (takeWhile (\<lambda>x. x \<noteq> CHR '' '') t)
                     else [])"
proof (cases "Message_fields.Text (body msg)")
  case Nil
  then show ?thesis by (simp add: Command_def IsCommand_def)
next
  case (Cons c t)
  show ?thesis
  proof (cases "c = CHR ''/''")
    case False
    with Cons show ?thesis by (simp add: Command_def IsCommand_def)
  next
    case True
    have teq: "Message_fields.Text (body msg) = CHR ''/'' # t"
      using Cons True by simp
    show ?thesis
      by (simp add: Command_def IsCommand_def teq first_token slice_from_def strip_at)
  qed
qed

lemma CommandArguments_Some:
  "CommandArguments (Some msg) =
     Inr (case Message_fields.Text (body msg) of
            [] \<Rightarrow> []
          | c # t \<Rightarrow> if c = CHR ''/'' \<and> CHR '' '' \<in> set t
                     then tl (dropWhile (\<lambda>x. x \<noteq> CHR '' '') t)
                     else [])"
proof (cases "Message_fields.Text (body msg)")
  case Nil
  then show ?thesis by (simp add: CommandArguments_def IsCommand_def)
next
  case (Cons c t)
  show ?thesis
  proof (cases "c = CHR ''/''")
    case False
    with Cons show ?thesis by (simp add: CommandArguments_def IsCommand_def)
  next
    case True
    have teq: "Message_fields.Text (body msg) = CHR ''/'' # t"
      using Cons True by simp
    have sp: "SplitN (CHR ''/'' # t) '' '' 2 =
       (if CHR '' '' \<in> set t
        then [CHR ''/'' # takeWhile (\<lambda>x. x \<noteq> CHR '' '') t, tl (dropWhile (\<lambda>x. x \<noteq> CHR '' '') t)]
        else [CHR ''/'' # t])"
      by (simp add: SplitN_space_2)
    show ?thesis
      by (simp add: CommandArguments_def IsCommand_def teq sp index_at_def Let_def)
  qed
qed


text \<open>
  C5. A message with the text \<^verbatim>\<open>"/start@mybot hello world"\<close> is a command, its command is
  \<^verbatim>\<open>"start"\<close> (the bot name after \<^verbatim>\<open>@\<close> removed, case kept) and its arguments are
  \<^verbatim>\<open>"hello world"\<close>; a message with the text \<^verbatim>\<open>"hello"\<close> is not a command and its
  command is the empty string. The other fields of the message are arbitrary.
\<close>

theorem command_parsing_examples:
  "IsCommand (Some (MkMessage (b\<lparr>Message_fields.Text := ''/start@mybot hello world''\<rparr>) r p)) = Inr True
   \<and> Command (Some (MkMessage (b\<lparr>Message_fields.Text := ''/start@mybot hello world''\<rparr>) r p)) = Inr ''start''
   \<and> CommandArguments (Some (MkMessage (b\<lparr>Message_fields.Text := ''/start@mybot hello world''\<rparr>) r p))
       = Inr ''hello world''
   \<and> IsCommand (Some (MkMessage (b\<lparr>Message_fields.Text := ''hello''\<rparr>) r p)) = Inr False
   \<and> Command (Some (MkMessage (b\<lparr>Message_fields.Text := ''hello''\<rparr>) r p)) = Inr []"
  by (simp add: IsCommand_Some Command_Some CommandArguments_Some)

text \<open>
  C10, where it fails: \<^verbatim>\<open>Command\<close> splits the text at the first space character only.
  In the text \<^verbatim>\<open>"/"\<close>, tab, \<^verbatim>\<open>"foo"\<close> the first whitespace-delimited token is \<^verbatim>\<open>"/"\<close>,
  and \<^verbatim>\<open>Command\<close> returns the tab and \<^verbatim>\<open>"foo"\<close>, not the empty string.
\<close>

theorem command_token_counterexample:
  "IsCommand (Some tab_separated) = Inr True
   \<and> Command (Some tab_separated) = Inr (CHR 0x09 # ''foo'')
   \<and> Command (Some tab_separated) \<noteq> Inr []"
  by (simp add: IsCommand_Some Command_Some tab_separated_def)

text \<open>
  C10, as the code has it. \<^verbatim>\<open>IsCommand\<close> returning true does not imply a non-empty
  command name: when the text is exactly \<^verbatim>\<open>"/"\<close>, or starts with \<^verbatim>\<open>"/ "\<close> (the first
  token, which ends at the first space character, is \<^verbatim>\<open>"/"\<close>), or starts with \<^verbatim>\<open>"/@"\<close>,
  \<^verbatim>\<open>IsCommand\<close> is true and \<^verbatim>\<open>Command\<close> is the empty string.
\<close>

theorem command_may_be_empty:
  "IsCommand (Some (MkMessage (b\<lparr>Message_fields.Text := ''/''\<rparr>) r p)) = Inr True
   \<and> Command (Some (MkMessage (b\<lparr>Message_fields.Text := ''/''\<rparr>) r p)) = Inr []
   \<and> IsCommand (Some (MkMessage (b\<lparr>Message_fields.Text := ''/ '' @ rest\<rparr>) r p)) = Inr True
   \<and> Command (Some (MkMessage (b\<lparr>Message_fields.Text := ''/ '' @ rest\<rparr>) r p)) = Inr []
   \<and> IsCommand (Some (MkMessage (b\<lparr>Message_fields.Text := ''/@'' @ rest\<rparr>) r p)) = Inr True
   \<and> Command (Some (MkMessage (b\<lparr>Message_fields.Text := ''/@'' @ rest\<rparr>) r p)) = Inr []"
  by (simp add: IsCommand_Some Command_Some)

text \<open>
  C9. The four type predicates of a chat are mutually exclusive: at most one of them is
  true, and all four are false when the type is none of \<^verbatim>\<open>"private"\<close>, \<^verbatim>\<open>"group"\<close>,
  \<^verbatim>\<open>"supergroup"\<close>, \<^verbatim>\<open>"channel"\<close>.
\<close>

theorem chat_predicates_exclusive:
  "length (filter id [IsPrivate c, IsGroup c, IsSuperGroup c, IsChannel c]) \<le> 1
   \<and> (Chat.Type c \<notin> {''private'', ''group'', ''supergroup'', ''channel''} \<longrightarrow>
        \<not> IsPrivate c \<and> \<not> IsGroup c \<and> \<not> IsSuperGroup c \<and> \<not> IsChannel c)"
  by (auto simp: IsPrivate_def IsGroup_def IsSuperGroup_def IsChannel_def)

theorem chat_predicates_exclusive_witness:
  "Chat.Type (zero_Chat\<lparr>Chat.Type := ''bot''\<rparr>) \<notin> {''private'', ''group'', ''supergroup'', ''channel''}
   \<and> \<not> IsPrivate (zero_Chat\<lparr>Chat.Type := ''bot''\<rparr>)
   \<and> \<not> IsGroup (zero_Chat\<lparr>Chat.Type := ''bot''\<rparr>)
   \<and> \<not> IsSuperGroup (zero_Chat\<lparr>Chat.Type := ''bot''\<rparr>)
   \<and> \<not> IsChannel (zero_Chat\<lparr>Chat.Type := ''bot''\<rparr>)
   \<and> length (filter id [IsPrivate (zero_Chat\<lparr>Chat.Type := ''private''\<rparr>),
        IsGroup (zero_Chat\<lparr>Chat.Type := ''private''\<rparr>),
        IsSuperGroup (zero_Chat\<lparr>Chat.Type := ''private''\<rparr>),
        IsChannel (zero_Chat\<lparr>Chat.Type := ''private''\<rparr>)]) \<le> 1"
  using chat_predicates_exclusive [of "zero_Chat\<lparr>Chat.Type := ''bot''\<rparr>"]
    chat_predicates_exclusive [of "zero_Chat\<lparr>Chat.Type := ''private''\<rparr>"]
  by simp

text \<open>
  C4, where it fails: for the update that carries no message, the accessors do not
  return false and the empty string.
\<close>

theorem command_accessors_counterexample:
  "\<not> (IsCommand (Update.Message zero_Update) = Inr False
      \<and> Command (Update.Message zero_Update) = Inr [])"
  by (simp add: zero_Update_def IsCommand_def)

text \<open>
  C4, as the code has it. The command accessors are methods of \<^verbatim>\<open>*Message\<close>, reached
  from an update as \<^verbatim>\<open>update.Message.IsCommand()\<close>. When the update carries no message
  the receiver is nil and each accessor panics on its first read of \<^verbatim>\<open>m.Text\<close>. When
  the message is present no accessor panics, and a message with an empty text gives
  false and the empty string.
\<close>

theorem command_accessors_by_message:
  "(Update.Message u = None \<longrightarrow>
      IsCommand (Update.Message u) = Inl NilDereference
      \<and> Command (Update.Message u) = Inl NilDereference
      \<and> CommandArguments (Update.Message u) = Inl NilDereference)
   \<and> (\<forall>m. Update.Message u = Some m \<longrightarrow>
        (\<exists>b. IsCommand (Update.Message u) = Inr b)
        \<and> (\<exists>s. Command (Update.Message u) = Inr s)
        \<and> (\<exists>s. CommandArguments (Update.Message u) = Inr s)
        \<and> (Message_fields.Text (body m) = [] \<longrightarrow>
             IsCommand (Update.Message u) = Inr False
             \<and> Command (Update.Message u) = Inr []
             \<and> CommandArguments (Update.Message u) = Inr []))"
proof (cases "Update.Message u")
  case None
  then show ?thesis
    by (simp add: IsCommand_def Command_def CommandArguments_def)
next
  case (Some m)
  then show ?thesis
    by (simp add: IsCommand_Some Command_Some CommandArguments_Some)
qed

theorem command_accessors_by_message_witness:
  "Update.Message zero_Update = None
   \<and> IsCommand (Update.Message zero_Update) = Inl NilDereference
   \<and> Command (Update.Message zero_Update) = Inl NilDereference
   \<and> Update.Message (zero_Update\<lparr>Update.Message := Some zero_Message\<rparr>) = Some zero_Message
   \<and> Message_fields.Text (body zero_Message) = []
   \<and> IsCommand (Update.Message (zero_Update\<lparr>Update.Message := Some zero_Message\<rparr>)) = Inr False
   \<and> Command (Update.Message (zero_Update\<lparr>Update.Message := Some zero_Message\<rparr>)) = Inr []"
  using command_accessors_by_message [of zero_Update]
    command_accessors_by_message [of "zero_Update\<lparr>Update.Message := Some zero_Message\<rparr>"]
  by (simp add: zero_Update_def zero_Message_def zero_Message_fields_def)

section \<open>Discarding the buffered updates\<close>

subsection \<open>The loop alone\<close>











subsection \<open>The loop among other goroutines\<close>
























section \<open>Decoding updates, envelopes and messages\<close>

subsection \<open>Members and fields\<close>

lemma members_unknown:
  "\<forall>(k, v) \<in> set ms. field_of tags k = None \<Longrightarrow> members tags setf ms cur = Inr cur"
  by (induction ms) auto

lemma members_append:
  "members tags setf (xs @ ys) cur =
     (case members tags setf xs cur of Inl e \<Rightarrow> Inl e | Inr c \<Rightarrow> members tags setf ys c)"
  by (induction xs arbitrary: cur) (auto split: option.splits sum.splits)

lemma field_of_exact: "k \<in> set tags \<Longrightarrow> field_of tags k = Some k"
  by (simp add: field_of_def)

lemma last_member_Cons_None:
  "last_member tags t ((k, v) # ms) = None \<longleftrightarrow>
     last_member tags t ms = None \<and> field_of tags k \<noteq> Some t"
  by (auto split: option.splits)

lemma store_Inr: "store f x = Inr c \<Longrightarrow> \<exists>y. x = Inr y \<and> c = f y"
  by (cases x) (simp_all add: store_def)

lemma dec_ptr_present:
  "dec_ptr dec zero v cur = Inr r \<Longrightarrow> (r \<noteq> None) = (v \<noteq> JNull)"
  by (auto simp: dec_ptr_def store_def split: if_splits sum.splits)

lemma members_pointer_field:
  assumes frame: "\<And>t' v cur c. setf t' v cur = Inr c \<Longrightarrow> P c = (if t' = t then v \<noteq> JNull else P cur)"
    and "members tags setf ms cur = Inr u"
  shows "P u = (case last_member tags t ms of None \<Rightarrow> P cur | Some v \<Rightarrow> v \<noteq> JNull)"
  using assms(2)
proof (induction ms arbitrary: cur)
  case Nil
  then show ?case by simp
next
  case (Cons kv ms)
  obtain k v where kv: "kv = (k, v)" by (cases kv)
  show ?case
  proof (cases "field_of tags k")
    case None
    with Cons.prems kv have "members tags setf ms cur = Inr u"
      by simp
    from Cons.IH [OF this] None kv show ?thesis
      by (auto split: option.splits)
  next
    case (Some t')
    with Cons.prems kv obtain c where c: "setf t' v cur = Inr c"
      and m: "members tags setf ms c = Inr u"
      by (auto split: sum.splits)
    from Cons.IH [OF m] Some kv frame [OF c] show ?thesis
      by (auto split: option.splits)
  qed
qed

subsection \<open>Updates\<close>

lemma set_update_id:
  "in_int64 n \<Longrightarrow> set_Update_field ''update_id'' (JNumber (IntLit n)) u = Inr (u\<lparr>UpdateID := n\<rparr>)"
  by (simp add: set_Update_field_def store_def)

lemma Update_tag_poll: "field_of Update_tags ''poll'' = None"
  by (simp add: field_of_def Update_tags_def ascii_upper_def)

lemma Update_tag_update_id: "field_of Update_tags ''update_id'' = Some ''update_id''"
  by (simp add: field_of_exact Update_tags_def)

lemma set_Update_field_frame:
  assumes "set_Update_field t' v cur = Inr c"
  shows "(Update.Message c \<noteq> None) = (if t' = ''message'' then v \<noteq> JNull else Update.Message cur \<noteq> None)"
    and "(EditedMessage c \<noteq> None) = (if t' = ''edited_message'' then v \<noteq> JNull else EditedMessage cur \<noteq> None)"
    and "(ChannelPost c \<noteq> None) = (if t' = ''channel_post'' then v \<noteq> JNull else ChannelPost cur \<noteq> None)"
    and "(EditedChannelPost c \<noteq> None)
          = (if t' = ''edited_channel_post'' then v \<noteq> JNull else EditedChannelPost cur \<noteq> None)"
    and "(Update.InlineQuery c \<noteq> None)
          = (if t' = ''inline_query'' then v \<noteq> JNull else Update.InlineQuery cur \<noteq> None)"
    and "(Update.ChosenInlineResult c \<noteq> None)
          = (if t' = ''chosen_inline_result'' then v \<noteq> JNull else Update.ChosenInlineResult cur \<noteq> None)"
    and "(Update.CallbackQuery c \<noteq> None)
          = (if t' = ''callback_query'' then v \<noteq> JNull else Update.CallbackQuery cur \<noteq> None)"
  using assms
  by (auto simp: set_Update_field_def dest!: store_Inr dest: dec_ptr_present split: if_splits)

lemma set_message_id:
  "in_int64 n \<Longrightarrow>
   set_Message_fields_field ''message_id'' (JNumber (IntLit n)) b = Inr (b\<lparr>MessageID := n\<rparr>)"
  by (simp add: set_Message_fields_field_def store_def)

lemma Message_tag_message_id: "field_of Message_tags ''message_id'' = Some ''message_id''"
  by (simp add: field_of_exact Message_tags_def)

lemma Message_tag_reply: "field_of Message_tags ''reply_to_message'' = Some ''reply_to_message''"
  by (simp add: field_of_exact Message_tags_def)

lemma two_payloads_decoded: "Unmarshal_Update (JObject two_payloads) = Inr two_payloads_update"
proof -
  have m: "dec_Message (JObject [(''message_id'', JNumber (IntLit 7))]) zero_Message
      = Inr (message_numbered 7 None)"
    by (simp add: Message_tag_message_id set_message_id in_int64_def zero_Message_def
          message_numbered_def)
  have c: "dec_CallbackQuery (JObject [(''id'', JString ''q'')]) zero_CallbackQuery
      = Inr (zero_CallbackQuery\<lparr>CallbackQuery.ID := ''q''\<rparr>)"
    by (simp add: dec_CallbackQuery_def dec_struct_def field_of_exact CallbackQuery_tags_def
          set_CallbackQuery_field_def store_def)
  show ?thesis
    by (simp add: Unmarshal_Update_def two_payloads_def two_payloads_update_def dec_Update_def
          dec_struct_def field_of_exact Update_tags_def set_Update_field_def store_def
          dec_ptr_def in_int64_def m c zero_Update_def del: dec_Message.simps)
qed

lemma two_payloads_populated:
  "populated Update_tags ''message'' two_payloads
   \<and> populated Update_tags ''callback_query'' two_payloads"
  by (simp add: populated_def two_payloads_def field_of_exact Update_tags_def)

text \<open>
  C8. An object whose keys select no field of \<^verbatim>\<open>Update\<close> decodes to the zero update, and
  an object with one well-typed \<^verbatim>\<open>update_id\<close> member among such keys decodes to the
  update with that identifier and every optional part absent. The keys are unknown to
  the decoder, that is, they match no tag exactly or after case folding, and the
  identifier is an integer literal within the range of an \<^verbatim>\<open>int\<close>.
\<close>

theorem unknown_kinds_ignored:
  "((\<forall>(k, v) \<in> set ms. field_of Update_tags k = None) \<longrightarrow>
       Unmarshal_Update (JObject ms) = Inr zero_Update)
   \<and> ((\<forall>(k, v) \<in> set (pre @ post). field_of Update_tags k = None)
        \<and> field_of Update_tags kid = Some ''update_id'' \<and> in_int64 n \<longrightarrow>
       Unmarshal_Update (JObject (pre @ (kid, JNumber (IntLit n)) # post))
         = Inr (zero_Update\<lparr>UpdateID := n\<rparr>))
   \<and> sub_payloads zero_Update = [False, False, False, False, False, False, False]
   \<and> sub_payloads (zero_Update\<lparr>UpdateID := n\<rparr>)
       = [False, False, False, False, False, False, False]"
proof (intro conjI impI)
  assume "\<forall>(k, v) \<in> set ms. field_of Update_tags k = None"
  then show "Unmarshal_Update (JObject ms) = Inr zero_Update"
    by (simp add: Unmarshal_Update_def dec_Update_def dec_struct_def members_unknown)
next
  assume a: "(\<forall>(k, v) \<in> set (pre @ post). field_of Update_tags k = None)
        \<and> field_of Update_tags kid = Some ''update_id'' \<and> in_int64 n"
  then have pre: "\<forall>(k, v) \<in> set pre. field_of Update_tags k = None"
    and post: "\<forall>(k, v) \<in> set post. field_of Update_tags k = None"
    and kid: "field_of Update_tags kid = Some ''update_id''" and n: "in_int64 n"
    by auto
  have "members Update_tags set_Update_field (pre @ (kid, JNumber (IntLit n)) # post) zero_Update
      = members Update_tags set_Update_field ((kid, JNumber (IntLit n)) # post) zero_Update"
    by (simp add: members_append members_unknown [OF pre])
  also have "\<dots> = members Update_tags set_Update_field post (zero_Update\<lparr>UpdateID := n\<rparr>)"
    by (simp add: kid set_update_id [OF n])
  also have "\<dots> = Inr (zero_Update\<lparr>UpdateID := n\<rparr>)"
    by (rule members_unknown [OF post])
  finally show "Unmarshal_Update (JObject (pre @ (kid, JNumber (IntLit n)) # post))
         = Inr (zero_Update\<lparr>UpdateID := n\<rparr>)"
    by (simp add: Unmarshal_Update_def dec_Update_def dec_struct_def)
next
  show "sub_payloads zero_Update = [False, False, False, False, False, False, False]"
    by (simp add: sub_payloads_def zero_Update_def)
next
  show "sub_payloads (zero_Update\<lparr>UpdateID := n\<rparr>)
       = [False, False, False, False, False, False, False]"
    by (simp add: sub_payloads_def zero_Update_def)
qed

theorem unknown_kinds_ignored_witness:
  "field_of Update_tags ''poll'' = None
   \<and> Unmarshal_Update (JObject [(''poll'', JObject [])]) = Inr zero_Update
   \<and> field_of Update_tags ''update_id'' = Some ''update_id'' \<and> in_int64 5
   \<and> Unmarshal_Update (JObject [(''poll'', JObject []), (''update_id'', JNumber (IntLit 5))])
       = Inr (zero_Update\<lparr>UpdateID := 5\<rparr>)
   \<and> sub_payloads (zero_Update\<lparr>UpdateID := 5\<rparr>)
       = [False, False, False, False, False, False, False]"
  using unknown_kinds_ignored [where ms = "[(''poll'', JObject [])]"
      and pre = "[(''poll'', JObject [])]" and post = "[]" and kid = "''update_id''" and n = 5]
    Update_tag_poll Update_tag_update_id
  by (simp add: in_int64_def sub_payloads_def zero_Update_def)

text \<open>
  C1, where it fails: an object with the keys \<^verbatim>\<open>message\<close> and \<^verbatim>\<open>callback_query\<close> both
  populated is not rejected, and the update it decodes to has both parts.
\<close>

theorem update_payloads_counterexample:
  "Unmarshal_Update (JObject two_payloads) = Inr two_payloads_update
   \<and> populated Update_tags ''message'' two_payloads
   \<and> populated Update_tags ''callback_query'' two_payloads
   \<and> Update.Message two_payloads_update \<noteq> None
   \<and> Update.CallbackQuery two_payloads_update \<noteq> None
   \<and> length (filter id (sub_payloads two_payloads_update)) = 2"
  by (simp add: two_payloads_decoded two_payloads_populated)
     (simp add: two_payloads_update_def sub_payloads_def zero_Update_def)

text \<open>
  C1, as the code has it. \<^verbatim>\<open>Update\<close> is decoded field by field and nothing compares
  the fields with each other: there is no validation and no order of priority. In every
  update decoded from a JSON object, each of the seven optional parts is non-absent
  exactly when its key is populated in the object, so the update has as many parts as
  the object has populated keys.
\<close>

theorem update_payloads_independent:
  assumes "Unmarshal_Update (JObject ms) = Inr u"
  shows "sub_payloads u = map (\<lambda>t. populated Update_tags t ms) payload_tags
     \<and> length (filter id (sub_payloads u))
         = length (filter (\<lambda>t. populated Update_tags t ms) payload_tags)"
proof -
  from assms have m: "members Update_tags set_Update_field ms zero_Update = Inr u"
    by (simp add: Unmarshal_Update_def dec_Update_def dec_struct_def)
  have "(Update.Message u \<noteq> None) = populated Update_tags ''message'' ms"
    using members_pointer_field [where P = "\<lambda>u. Update.Message u \<noteq> None", OF set_Update_field_frame(1) m]
    by (simp add: zero_Update_def populated_def split: option.splits)
  moreover have "(EditedMessage u \<noteq> None) = populated Update_tags ''edited_message'' ms"
    using members_pointer_field [where P = "\<lambda>u. EditedMessage u \<noteq> None", OF set_Update_field_frame(2) m]
    by (simp add: zero_Update_def populated_def split: option.splits)
  moreover have "(ChannelPost u \<noteq> None) = populated Update_tags ''channel_post'' ms"
    using members_pointer_field [where P = "\<lambda>u. ChannelPost u \<noteq> None", OF set_Update_field_frame(3) m]
    by (simp add: zero_Update_def populated_def split: option.splits)
  moreover have "(EditedChannelPost u \<noteq> None) = populated Update_tags ''edited_channel_post'' ms"
    using members_pointer_field [where P = "\<lambda>u. EditedChannelPost u \<noteq> None", OF set_Update_field_frame(4) m]
    by (simp add: zero_Update_def populated_def split: option.splits)
  moreover have "(Update.InlineQuery u \<noteq> None) = populated Update_tags ''inline_query'' ms"
    using members_pointer_field [where P = "\<lambda>u. Update.InlineQuery u \<noteq> None", OF set_Update_field_frame(5) m]
    by (simp add: zero_Update_def populated_def split: option.splits)
  moreover have "(Update.ChosenInlineResult u \<noteq> None) = populated Update_tags ''chosen_inline_result'' ms"
    using members_pointer_field [where P = "\<lambda>u. Update.ChosenInlineResult u \<noteq> None",
        OF set_Update_field_frame(6) m]
    by (simp add: zero_Update_def populated_def split: option.splits)
  moreover have "(Update.CallbackQuery u \<noteq> None) = populated Update_tags ''callback_query'' ms"
    using members_pointer_field [where P = "\<lambda>u. Update.CallbackQuery u \<noteq> None",
        OF set_Update_field_frame(7) m]
    by (simp add: zero_Update_def populated_def split: option.splits)
  ultimately have a: "sub_payloads u = map (\<lambda>t. populated Update_tags t ms) payload_tags"
    by (simp add: sub_payloads_def payload_tags_def)
  have "length (filter id (map f xs)) = length (filter f xs)" for f :: "string \<Rightarrow> bool" and xs
    by (induction xs) auto
  with a show ?thesis by simp
qed

theorem update_payloads_independent_witness:
  "Unmarshal_Update (JObject two_payloads) = Inr two_payloads_update
   \<and> sub_payloads two_payloads_update
       = map (\<lambda>t. populated Update_tags t two_payloads) payload_tags
   \<and> length (filter (\<lambda>t. populated Update_tags t two_payloads) payload_tags) = 2"
proof -
  have "length (filter id (sub_payloads two_payloads_update)) = 2"
    by (simp add: two_payloads_update_def sub_payloads_def zero_Update_def)
  with update_payloads_independent [OF two_payloads_decoded] two_payloads_decoded
  show ?thesis by simp
qed

subsection \<open>Response envelopes\<close>

lemma set_APIResponse_field_frame:
  assumes "set_APIResponse_field t' v cur = Inr r"
  shows "Result r = (if t' = ''result'' then Some v else Result cur)"
    and "t' \<noteq> ''ok'' \<Longrightarrow> Ok r = Ok cur"
    and "t' \<noteq> ''error_code'' \<Longrightarrow> ErrorCode r = ErrorCode cur"
    and "t' \<noteq> ''description'' \<Longrightarrow> Description r = Description cur"
    and "t' \<noteq> ''parameters'' \<Longrightarrow> Parameters r = Parameters cur"
  using assms
  by (auto simp: set_APIResponse_field_def store_def dec_RawMessage_def
        split: if_splits sum.splits)

lemma APIResponse_members:
  "members APIResponse_tags set_APIResponse_field ms cur = Inr r \<Longrightarrow>
     Result r = (case last_member APIResponse_tags ''result'' ms of None \<Rightarrow> Result cur | Some v \<Rightarrow> Some v)
     \<and> (last_member APIResponse_tags ''ok'' ms = None \<longrightarrow> Ok r = Ok cur)
     \<and> (last_member APIResponse_tags ''error_code'' ms = None \<longrightarrow> ErrorCode r = ErrorCode cur)
     \<and> (last_member APIResponse_tags ''description'' ms = None \<longrightarrow> Description r = Description cur)
     \<and> (last_member APIResponse_tags ''parameters'' ms = None \<longrightarrow> Parameters r = Parameters cur)"
proof (induction ms arbitrary: cur)
  case Nil
  then show ?case by simp
next
  case (Cons kv ms)
  obtain k v where kv: "kv = (k, v)" by (cases kv)
  show ?case
  proof (cases "field_of APIResponse_tags k")
    case None
    with Cons.prems kv have "members APIResponse_tags set_APIResponse_field ms cur = Inr r"
      by simp
    from Cons.IH [OF this] None kv show ?thesis
      by (auto split: option.splits)
  next
    case (Some t')
    with Cons.prems kv obtain c where c: "set_APIResponse_field t' v cur = Inr c"
      and m: "members APIResponse_tags set_APIResponse_field ms c = Inr r"
      by (auto split: sum.splits)
    note f = set_APIResponse_field_frame [OF c]
    from Cons.IH [OF m] Some kv f show ?thesis
      by (auto split: option.splits)
  qed
qed

lemma ok_only_decoded:
  "Unmarshal_APIResponse (JObject ok_only) = Inr (zero_APIResponse\<lparr>Ok := True\<rparr>)"
  by (simp add: Unmarshal_APIResponse_def dec_APIResponse_def dec_struct_def ok_only_def
        field_of_exact APIResponse_tags_def set_APIResponse_field_def store_def
        zero_APIResponse_def)

lemma success_decoded:
  "Unmarshal_APIResponse (JObject [(''ok'', JBool True), (''result'', v)])
     = Inr (zero_APIResponse\<lparr>Ok := True, Result := Some v\<rparr>)"
  by (simp add: Unmarshal_APIResponse_def dec_APIResponse_def dec_struct_def
        field_of_exact APIResponse_tags_def set_APIResponse_field_def store_def
        dec_RawMessage_def zero_APIResponse_def)

lemma failure_decoded:
  "in_int64 c \<Longrightarrow>
   Unmarshal_APIResponse
      (JObject [(''ok'', JBool False), (''error_code'', JNumber (IntLit c)),
                (''description'', JString d)])
     = Inr (zero_APIResponse\<lparr>ErrorCode := c, Description := d\<rparr>)"
  by (simp add: Unmarshal_APIResponse_def dec_APIResponse_def dec_struct_def
        field_of_exact APIResponse_tags_def set_APIResponse_field_def store_def
        zero_APIResponse_def)

text \<open>
  C2, where it fails. The answer of the platform to \<^verbatim>\<open>setWebhook\<close> has the success flag,
  a result and a description: it decodes with both sides present. And \<^verbatim>\<open>{"ok":true}\<close>
  decodes too, with the success flag true and no result.
\<close>

theorem envelope_counterexample:
  "Unmarshal_APIResponse (JObject webhook_reply)
     = Inr (zero_APIResponse\<lparr>Ok := True, Result := Some (JBool True),
              Description := ''Webhook was set''\<rparr>)
   \<and> Unmarshal_APIResponse (JObject ok_only) = Inr (zero_APIResponse\<lparr>Ok := True\<rparr>)
   \<and> Result (zero_APIResponse\<lparr>Ok := True\<rparr>) = None"
  by (simp add: ok_only_decoded)
     (simp add: Unmarshal_APIResponse_def dec_APIResponse_def dec_struct_def webhook_reply_def
        field_of_exact APIResponse_tags_def set_APIResponse_field_def store_def
        dec_RawMessage_def zero_APIResponse_def)

text \<open>
  C2, as the code has it. The fields of an envelope are decoded one by one and nothing
  ties them to the success flag. In every envelope decoded from a JSON object the result
  is the value of the \<^verbatim>\<open>result\<close> member, absent exactly when the object has none, and
  the success flag, the error code, the description and the parameters have their zero
  values (\<^verbatim>\<open>false\<close>, \<open>0\<close>, \<^verbatim>\<open>""\<close>, nil) when the object has no member for them. So an
  object with a true \<^verbatim>\<open>ok\<close> and a result and nothing else decodes with the result
  present and the error fields zero, and one with a false \<^verbatim>\<open>ok\<close>, an error code and a
  description decodes with these and no result.
\<close>

theorem envelope_fields_independent:
  "(Unmarshal_APIResponse (JObject ms) = Inr r \<longrightarrow>
      Result r = last_member APIResponse_tags ''result'' ms
      \<and> (last_member APIResponse_tags ''ok'' ms = None \<longrightarrow> \<not> Ok r)
      \<and> (last_member APIResponse_tags ''error_code'' ms = None \<longrightarrow> ErrorCode r = 0)
      \<and> (last_member APIResponse_tags ''description'' ms = None \<longrightarrow> Description r = [])
      \<and> (last_member APIResponse_tags ''parameters'' ms = None \<longrightarrow> Parameters r = None))
   \<and> Unmarshal_APIResponse (JObject [(''ok'', JBool True), (''result'', v)])
       = Inr (zero_APIResponse\<lparr>Ok := True, Result := Some v\<rparr>)
   \<and> (in_int64 c \<longrightarrow>
        Unmarshal_APIResponse
          (JObject [(''ok'', JBool False), (''error_code'', JNumber (IntLit c)),
                    (''description'', JString d)])
         = Inr (zero_APIResponse\<lparr>ErrorCode := c, Description := d\<rparr>))"
proof -
  have a: "Unmarshal_APIResponse (JObject ms) = Inr r \<longrightarrow>
      Result r = last_member APIResponse_tags ''result'' ms
      \<and> (last_member APIResponse_tags ''ok'' ms = None \<longrightarrow> \<not> Ok r)
      \<and> (last_member APIResponse_tags ''error_code'' ms = None \<longrightarrow> ErrorCode r = 0)
      \<and> (last_member APIResponse_tags ''description'' ms = None \<longrightarrow> Description r = [])
      \<and> (last_member APIResponse_tags ''parameters'' ms = None \<longrightarrow> Parameters r = None)"
  proof
    assume "Unmarshal_APIResponse (JObject ms) = Inr r"
    then have "members APIResponse_tags set_APIResponse_field ms zero_APIResponse = Inr r"
      by (simp add: Unmarshal_APIResponse_def dec_APIResponse_def dec_struct_def)
    from APIResponse_members [OF this]
    show "Result r = last_member APIResponse_tags ''result'' ms
      \<and> (last_member APIResponse_tags ''ok'' ms = None \<longrightarrow> \<not> Ok r)
      \<and> (last_member APIResponse_tags ''error_code'' ms = None \<longrightarrow> ErrorCode r = 0)
      \<and> (last_member APIResponse_tags ''description'' ms = None \<longrightarrow> Description r = [])
      \<and> (last_member APIResponse_tags ''parameters'' ms = None \<longrightarrow> Parameters r = None)"
      by (auto simp: zero_APIResponse_def split: option.splits)
  qed
  show ?thesis
    by (rule conjI [OF a conjI [OF success_decoded impI [OF failure_decoded]]])
qed

theorem envelope_fields_independent_witness:
  "Unmarshal_APIResponse (JObject ok_only) = Inr (zero_APIResponse\<lparr>Ok := True\<rparr>)
   \<and> last_member APIResponse_tags ''result'' ok_only = None
   \<and> Result (zero_APIResponse\<lparr>Ok := True\<rparr>) = None
   \<and> last_member APIResponse_tags ''error_code'' ok_only = None
   \<and> ErrorCode (zero_APIResponse\<lparr>Ok := True\<rparr>) = 0
   \<and> in_int64 400
   \<and> Unmarshal_APIResponse
        (JObject [(''ok'', JBool False), (''error_code'', JNumber (IntLit 400)),
                  (''description'', JString ''Bad Request'')])
       = Inr (zero_APIResponse\<lparr>ErrorCode := 400, Description := ''Bad Request''\<rparr>)"
  using envelope_fields_independent [where ms = ok_only and r = "zero_APIResponse\<lparr>Ok := True\<rparr>"
      and c = 400 and d = "''Bad Request''" and v = JNull]
    ok_only_decoded
  by (simp add: in_int64_def ok_only_def field_of_exact APIResponse_tags_def)

subsection \<open>Reply chains\<close>

lemma Message_members_reply_kept:
  "Message_members ms cur = Inr m \<Longrightarrow>
   last_member Message_tags ''reply_to_message'' ms = None \<Longrightarrow>
   ReplyToMessage m = ReplyToMessage cur"
proof (induction ms arbitrary: cur)
  case Nil
  then show ?case by simp
next
  case (Cons kv ms)
  obtain k v where kv: "kv = (k, v)" by (cases kv)
  from Cons.prems(2) kv have l: "last_member Message_tags ''reply_to_message'' ms = None"
    and k: "field_of Message_tags k \<noteq> Some ''reply_to_message''"
    by (auto split: option.splits if_splits)
  show ?case
  proof (cases "field_of Message_tags k")
    case None
    with Cons.prems(1) kv have "Message_members ms cur = Inr m" by simp
    from Cons.IH [OF this l] show ?thesis .
  next
    case (Some t)
    with k have t: "t \<noteq> ''reply_to_message''" by simp
    from Cons.prems(1) kv Some t obtain c where c: "Message_members ms c = Inr m"
      and r: "ReplyToMessage c = ReplyToMessage cur"
      by (auto split: if_splits sum.splits)
    from Cons.IH [OF c l] r show ?thesis by simp
  qed
qed

lemma Message_members_reply_set:
  "Message_members ms cur = Inr m \<Longrightarrow>
   last_member Message_tags ''reply_to_message'' ms = Some v \<Longrightarrow> v \<noteq> JNull \<Longrightarrow>
   \<exists>prior p. ReplyToMessage m = Some p \<and> dec_Message v prior = Inr p"
proof (induction ms arbitrary: cur)
  case Nil
  then show ?case by simp
next
  case (Cons kv ms)
  obtain k w where kv: "kv = (k, w)" by (cases kv)
  show ?case
  proof (cases "last_member Message_tags ''reply_to_message'' ms")
    case (Some v')
    with Cons.prems(2) kv have v': "v' = v" by simp
    from Cons.prems(1) kv obtain c where c: "Message_members ms c = Inr m"
      by (auto split: option.splits if_splits sum.splits)
    from Cons.IH [OF c] Some v' Cons.prems(3) show ?thesis by simp
  next
    case None
    with Cons.prems(2) kv have k: "field_of Message_tags k = Some ''reply_to_message''"
      and w: "w = v"
      by (auto split: if_splits)
    from Cons.prems(1) kv k w Cons.prems(3) obtain prior p
      where p: "dec_Message v prior = Inr p"
        and c: "Message_members ms (MkMessage (body cur) (Some p) (PinnedMessage cur)) = Inr m"
      by (auto split: sum.splits)
    from Message_members_reply_kept [OF c None] p show ?thesis by auto
  qed
qed

lemma reply_chain_decoded:
  "\<exists>m. dec_Message (reply_chain n) zero_Message = Inr m \<and> reply_depth m = n"
proof (induction n)
  case 0
  show ?case
    by (simp add: Message_tag_message_id set_message_id in_int64_def zero_Message_def)
next
  case (Suc n)
  then obtain m where m: "dec_Message (reply_chain n) zero_Message = Inr m"
    and d: "reply_depth m = n"
    by auto
  have n: "reply_chain n \<noteq> JNull" by (cases n) simp_all
  show ?case
    by (simp add: Message_tag_message_id Message_tag_reply set_message_id in_int64_def
          zero_Message_def n m [unfolded zero_Message_def] d)
qed

lemma nested_reply_decoded:
  "Unmarshal_Message (JObject nested_reply)
     = Inr (message_numbered 3 (Some (message_numbered 2 (Some (message_numbered 1 None)))))"
  by (simp add: Unmarshal_Message_def nested_reply_def message_numbered_def
        Message_tag_message_id Message_tag_reply set_message_id in_int64_def zero_Message_def)

lemma nested_reply_last:
  "last_member Message_tags ''reply_to_message'' nested_reply
     = Some (JObject [(''message_id'', JNumber (IntLit 2)),
          (''reply_to_message'', JObject [(''message_id'', JNumber (IntLit 1))])])"
  by (simp add: nested_reply_def Message_tag_message_id Message_tag_reply)

lemma nested_reply_populated:
  "populated Message_tags ''reply_to_message''
     [(''message_id'', JNumber (IntLit 2)),
      (''reply_to_message'', JObject [(''message_id'', JNumber (IntLit 1))])]"
  by (simp add: populated_def Message_tag_message_id Message_tag_reply)

text \<open>
  C3, where it fails: a message that replies to a reply decodes with both links, the
  second one is not dropped.
\<close>

theorem reply_chain_counterexample:
  "Unmarshal_Message (JObject nested_reply)
     = Inr (message_numbered 3 (Some (message_numbered 2 (Some (message_numbered 1 None)))))
   \<and> populated Message_tags ''reply_to_message'' nested_reply
   \<and> grandparent (message_numbered 3 (Some (message_numbered 2 (Some (message_numbered 1 None)))))
       = Some (message_numbered 1 None)"
  by (simp add: nested_reply_decoded nested_reply_last populated_def)
     (simp add: grandparent_def message_numbered_def)

text \<open>
  C3, as the code has it. The decoder of \<^verbatim>\<open>Message\<close> decodes \<^verbatim>\<open>reply_to_message\<close> with
  itself and has no bound on the depth. For every message decoded from a JSON object
  whose \<^verbatim>\<open>reply_to_message\<close> is an object with a populated \<^verbatim>\<open>reply_to_message\<close> of its
  own, \<^verbatim>\<open>ReplyToMessage\<close> is present and so is \<^verbatim>\<open>ReplyToMessage.ReplyToMessage\<close>; and a
  chain of \<open>n\<close> nested replies decodes to a message with a chain of \<open>n\<close> links.
\<close>

theorem reply_chain_kept:
  "(Unmarshal_Message (JObject ms) = Inr m
      \<and> last_member Message_tags ''reply_to_message'' ms = Some (JObject ms')
      \<and> populated Message_tags ''reply_to_message'' ms' \<longrightarrow>
        (\<exists>p g. ReplyToMessage m = Some p \<and> ReplyToMessage p = Some g \<and> grandparent m = Some g))
   \<and> (\<exists>m'. Unmarshal_Message (reply_chain n) = Inr m' \<and> reply_depth m' = n)"
proof (intro conjI impI)
  assume a: "Unmarshal_Message (JObject ms) = Inr m
      \<and> last_member Message_tags ''reply_to_message'' ms = Some (JObject ms')
      \<and> populated Message_tags ''reply_to_message'' ms'"
  then have d: "Message_members ms zero_Message = Inr m"
    by (simp add: Unmarshal_Message_def)
  from a have l: "last_member Message_tags ''reply_to_message'' ms = Some (JObject ms')"
    by simp
  from a obtain v where v: "last_member Message_tags ''reply_to_message'' ms' = Some v"
    and vn: "v \<noteq> JNull"
    by (auto simp: populated_def split: option.splits)
  from Message_members_reply_set [OF d l] obtain prior p
    where p: "ReplyToMessage m = Some p" and dp: "Message_members ms' prior = Inr p"
    by auto
  from Message_members_reply_set [OF dp v vn] obtain g where "ReplyToMessage p = Some g"
    by auto
  with p show "\<exists>p g. ReplyToMessage m = Some p \<and> ReplyToMessage p = Some g \<and> grandparent m = Some g"
    by (simp add: grandparent_def)
next
  from reply_chain_decoded [of n]
  show "\<exists>m'. Unmarshal_Message (reply_chain n) = Inr m' \<and> reply_depth m' = n"
    by (simp add: Unmarshal_Message_def)
qed

theorem reply_chain_kept_witness:
  "Unmarshal_Message (JObject nested_reply)
     = Inr (message_numbered 3 (Some (message_numbered 2 (Some (message_numbered 1 None)))))
   \<and> (\<exists>p g. ReplyToMessage (message_numbered 3 (Some (message_numbered 2 (Some (message_numbered 1 None)))))
         = Some p \<and> ReplyToMessage p = Some g
         \<and> grandparent (message_numbered 3 (Some (message_numbered 2 (Some (message_numbered 1 None)))))
             = Some g)
   \<and> (\<exists>m'. Unmarshal_Message (reply_chain 2) = Inr m' \<and> reply_depth m' = 2)"
  using reply_chain_kept [of nested_reply
      "message_numbered 3 (Some (message_numbered 2 (Some (message_numbered 1 None))))"
      "[(''message_id'', JNumber (IntLit 2)),
        (''reply_to_message'', JObject [(''message_id'', JNumber (IntLit 1))])]" 2]
    nested_reply_decoded nested_reply_last nested_reply_populated
  by simp

end
